theory Spec2Isabelle
  imports Complex_Main
begin

section \<open>JavaScript strings\<close>

text \<open>
  A JavaScript string is a sequence of UTF-16 code units. A code unit is modelled as a
  natural number (below 65536 for a string that JavaScript can hold), so every statement
  proved for all \<open>jsstring\<close> values covers every string the tools can receive.
  \<open>js\<close> embeds an ASCII literal; the accented letters of the Portuguese keywords are
  written as their code units (\<open>0xE9\<close> is e-acute, \<open>0xEA\<close> e-circumflex, \<open>0xED\<close>
  i-acute, \<open>0xE7\<close> c-cedilla, \<open>0xE3\<close> a-tilde, \<open>0xF5\<close> o-tilde, \<open>0xF3\<close> o-acute,
  \<open>0xE1\<close> a-acute, \<open>0xFA\<close> u-acute, \<open>0xBA\<close> the masculine ordinal).
\<close>

type_synonym jsstring = "nat list"

definition js :: "string \<Rightarrow> jsstring" where
  "js s = map of_char s"

text \<open>\<open>String.prototype.startsWith\<close> and \<open>String.prototype.includes\<close>: comparison of code units.\<close>

fun startsWith :: "'a list \<Rightarrow> 'a list \<Rightarrow> bool" where
  "startsWith s [] = True"
| "startsWith [] (k # ks) = False"
| "startsWith (c # cs) (k # ks) = (c = k \<and> startsWith cs ks)"

fun js_includes :: "'a list \<Rightarrow> 'a list \<Rightarrow> bool" where
  "js_includes [] k = (k = [])"
| "js_includes (c # cs) k = (startsWith (c # cs) k \<or> js_includes cs k)"

text \<open>
  The code units that \<open>String.prototype.trim\<close> removes and that the regular expression
  class \<open>\s\<close> matches: ECMAScript WhiteSpace and LineTerminator.
\<close>

definition isWhiteSpace :: "nat \<Rightarrow> bool" where
  "isWhiteSpace c =
     (c = 0x9 \<or> c = 0xA \<or> c = 0xB \<or> c = 0xC \<or> c = 0xD \<or> c = 0x20 \<or> c = 0xA0 \<or>
      c = 0x1680 \<or> (0x2000 \<le> c \<and> c \<le> 0x200A) \<or> c = 0x2028 \<or> c = 0x2029 \<or>
      c = 0x202F \<or> c = 0x205F \<or> c = 0x3000 \<or> c = 0xFEFF)"

definition trim :: "jsstring \<Rightarrow> jsstring" where
  "trim s = rev (dropWhile isWhiteSpace (rev (dropWhile isWhiteSpace s)))"

text \<open>The regular expression class \<open>\d\<close>.\<close>

definition isDigit :: "nat \<Rightarrow> bool" where
  "isDigit c = (0x30 \<le> c \<and> c \<le> 0x39)"

text \<open>\<open>Array.prototype.join\<close> on an array of strings.\<close>

fun join :: "jsstring \<Rightarrow> jsstring list \<Rightarrow> jsstring" where
  "join sep [] = []"
| "join sep [x] = x"
| "join sep (x # y # ys) = x @ sep @ join sep (y # ys)"

text \<open>
  \<open>String.prototype.toLowerCase\<close> follows the Unicode case tables, which are not part of
  the repository. Every tool below takes it as the parameter \<open>toLowerCase\<close>, and every
  theorem holds for any such function. \<open>toLowerCaseLatin1\<close> is what the built-in does on
  strings of Basic Latin and Latin-1 code units; the concrete inputs of the witnesses and
  counterexamples are such strings.
\<close>

definition toLowerCaseLatin1 :: "jsstring \<Rightarrow> jsstring" where
  "toLowerCaseLatin1 s =
     map (\<lambda>c. if (0x41 \<le> c \<and> c \<le> 0x5A) \<or> (0xC0 \<le> c \<and> c \<le> 0xDE \<and> c \<noteq> 0xD7)
              then c + 0x20 else c) s"

section \<open>The eligibility evaluation tool (\<open>evaluatePCDEligibility\<close>)\<close>

datatype PCDOutcome = SIM | NAO | TALVEZ

datatype DeficiencyType = FISICA | INTELECTUAL | AUDITIVA | VISUAL | MULTIPLA | PSICOSSOCIAL

datatype SeverityLevel = LEVE | MODERADA | GRAVE | GRAVISSIMA

datatype DocumentKind =
  LAUDO_MEDICO | RELATORIO_ESPECIALISTA | EXAMES_COMPLEMENTARES | ATESTADO_MEDICO
  | CIF_ASSESSMENT | NEUROPSICOLOGICO | OUTROS

text \<open>
  An entry of \<open>documentationProvided\<close>. The schema declares \<open>content\<close> a string; the
  \<open>execute\<close> function itself does not check it, so \<open>doc_content\<close> is \<open>None\<close> for an entry
  whose content is not a string at run time (\<open>undefined\<close>), on which the method call
  \<open>doc.content.toLowerCase()\<close> raises a \<open>TypeError\<close>.
\<close>

record document =
  doc_type :: DocumentKind
  doc_content :: "jsstring option"
  issueDate :: "jsstring option"
  professionalCRM :: "jsstring option"
  specialization :: "jsstring option"

datatype js_error = TypeError

record LegalFramework =
  lei13146 :: jsstring
  cif :: jsstring
  decreto :: jsstring

text \<open>
  The assessment that the tool returns. The confidence is one of the decimal literals of
  the source (0.1, 0.3, 0.6, 0.7, 0.8); nothing is computed from it, and it is kept as the
  number that the literal denotes.
\<close>

record PCDEvaluationResult =
  outcome :: PCDOutcome
  confidence :: real
  deficiencyType :: "DeficiencyType option"
  severityLevel :: "SeverityLevel option"
  functionalLimitations :: "jsstring list"
  compensatoryFactors :: "jsstring list"
  legalJustification :: LegalFramework
  clinicalEvidence :: "jsstring list"
  missingDocumentation :: "jsstring list"
  technicalReasoning :: jsstring
  requiresPhysicalEvaluation :: bool

text \<open>The variables that the loop over the documents updates.\<close>

record scan_state =
  st_deficiencyType :: "DeficiencyType option"
  st_functionalLimitations :: "jsstring list"
  st_clinicalEvidence :: "jsstring list"

definition initial_scan :: scan_state where
  "initial_scan =
     \<lparr>st_deficiencyType = None, st_functionalLimitations = [], st_clinicalEvidence = []\<rparr>"

text \<open>One keyword rule of the loop body: assign the type and push the finding.\<close>

definition detect :: "bool \<Rightarrow> DeficiencyType \<Rightarrow> jsstring \<Rightarrow> scan_state \<Rightarrow> scan_state" where
  "detect hit t finding st =
     (if hit
      then st\<lparr>st_deficiencyType := Some t,
              st_functionalLimitations := st_functionalLimitations st @ [finding]\<rparr>
      else st)"

definition evidence :: "bool \<Rightarrow> jsstring \<Rightarrow> scan_state \<Rightarrow> scan_state" where
  "evidence hit entry st =
     (if hit then st\<lparr>st_clinicalEvidence := st_clinicalEvidence st @ [entry]\<rparr> else st)"

text \<open>The body of \<open>for (const doc of documentationProvided)\<close>.\<close>

definition analyzeDoc ::
  "(jsstring \<Rightarrow> jsstring) \<Rightarrow> scan_state \<Rightarrow> document \<Rightarrow> js_error + scan_state" where
  "analyzeDoc toLowerCase st doc =
     (case doc_content doc of
        None \<Rightarrow> Inl TypeError
      | Some raw \<Rightarrow>
          (let c = toLowerCase raw;
               st1 = detect (js_includes c (js ''defici'' @ [0xEA] @ js ''ncia f'' @ [0xED] @ js ''sica'')
                               \<or> js_includes c (js ''mobilidade''))
                        FISICA
                        (js ''Limita'' @ [0xE7, 0xF5] @ js ''es de mobilidade identificadas'') st;
               st2 = detect (js_includes c (js ''defici'' @ [0xEA] @ js ''ncia intelectual'')
                               \<or> js_includes c (js ''cognitiv''))
                        INTELECTUAL
                        (js ''Limita'' @ [0xE7, 0xF5] @ js ''es cognitivas identificadas'') st1;
               st3 = detect (js_includes c (js ''defici'' @ [0xEA] @ js ''ncia auditiva'')
                               \<or> js_includes c (js ''surdez''))
                        AUDITIVA
                        (js ''Limita'' @ [0xE7, 0xF5] @ js ''es auditivas identificadas'') st2;
               st4 = detect (js_includes c (js ''defici'' @ [0xEA] @ js ''ncia visual'')
                               \<or> js_includes c (js ''cegueira''))
                        VISUAL
                        (js ''Limita'' @ [0xE7, 0xF5] @ js ''es visuais identificadas'') st3;
               st5 = evidence (js_includes c (js ''cid''))
                        (js ''CID identificado na documenta'' @ [0xE7, 0xE3] @ js ''o'') st4;
               st6 = evidence (js_includes c (js ''limita'' @ [0xE7, 0xE3] @ js ''o funcional''))
                        (js ''Limita'' @ [0xE7, 0xF5] @ js ''es funcionais documentadas'') st5
           in Inr st6))"

text \<open>The loop: an exception in one iteration ends it.\<close>

fun analyzeDocs ::
  "(jsstring \<Rightarrow> jsstring) \<Rightarrow> scan_state \<Rightarrow> document list \<Rightarrow> js_error + scan_state" where
  "analyzeDocs toLowerCase st [] = Inr st"
| "analyzeDocs toLowerCase st (doc # docs) =
     (case analyzeDoc toLowerCase st doc of
        Inl e \<Rightarrow> Inl e
      | Inr st' \<Rightarrow> analyzeDocs toLowerCase st' docs)"

text \<open>
  Step 1 of the \<open>try\<close> block: the required documents that are missing. (The source
  also computes \<open>hasComplementaryExams\<close>, and never reads it.)
\<close>

definition missingDocs :: "document list \<Rightarrow> jsstring list" where
  "missingDocs docs =
     (let hasLaudoMedico = list_ex (\<lambda>doc. doc_type doc = LAUDO_MEDICO) docs;
          hasSpecialistReport = list_ex (\<lambda>doc. doc_type doc = RELATORIO_ESPECIALISTA) docs
      in (if \<not> hasLaudoMedico
          then [js ''Laudo m'' @ [0xE9] @ js ''dico atualizado (menos de 1 ano)''] else [])
         @ (if \<not> hasSpecialistReport
            then [js ''Relat'' @ [0xF3] @ js ''rio de m'' @ [0xE9] @ js ''dico especialista na ''
                  @ [0xE1] @ js ''rea da defici'' @ [0xEA] @ js ''ncia'']
            else []))"

text \<open>
  Step 3 of the tool, the \<open>if\<close>/\<open>else if\<close> chain: outcome, confidence, severity level and
  \<open>requiresPhysicalEvaluation\<close>, from the missing documents, the detected type, the
  findings and the number of documents.
\<close>

definition determineOutcome ::
  "jsstring list \<Rightarrow> DeficiencyType option \<Rightarrow> jsstring list \<Rightarrow> nat
     \<Rightarrow> PCDOutcome \<times> real \<times> SeverityLevel option \<times> bool" where
  "determineOutcome missing dt limitations ndocs =
     (if length missing > 0 then (TALVEZ, 3 / 10, None, False)
      else if dt \<noteq> None \<and> length limitations > 0 then (SIM, 8 / 10, Some MODERADA, False)
      else if ndocs > 0 \<and> dt \<noteq> None then (TALVEZ, 6 / 10, None, True)
      else (NAO, 7 / 10, None, False))"

definition deficiencyTypeName :: "DeficiencyType \<Rightarrow> jsstring" where
  "deficiencyTypeName t =
     (case t of FISICA \<Rightarrow> js ''FISICA'' | INTELECTUAL \<Rightarrow> js ''INTELECTUAL''
      | AUDITIVA \<Rightarrow> js ''AUDITIVA'' | VISUAL \<Rightarrow> js ''VISUAL'' | MULTIPLA \<Rightarrow> js ''MULTIPLA''
      | PSICOSSOCIAL \<Rightarrow> js ''PSICOSSOCIAL'')"

definition legalJustificationFull :: LegalFramework where
  "legalJustificationFull =
     \<lparr>lei13146 =
        js ''Art. 2'' @ [0xBA] @ js '' - Considera-se pessoa com defici'' @ [0xEA]
        @ js ''ncia aquela que tem impedimento de longo prazo de natureza f'' @ [0xED]
        @ js ''sica, mental, intelectual ou sensorial, o qual, em intera'' @ [0xE7, 0xE3]
        @ js ''o com uma ou mais barreiras, pode obstruir sua participa'' @ [0xE7, 0xE3]
        @ js ''o plena e efetiva na sociedade em igualdade de condi'' @ [0xE7, 0xF5]
        @ js ''es com as demais pessoas.'',
      cif =
        js ''Classifica'' @ [0xE7, 0xE3] @ js ''o baseada no modelo bio-psico-social da defici''
        @ [0xEA] @ js ''ncia, considerando fun'' @ [0xE7, 0xF5]
        @ js ''es e estruturas do corpo, atividade e participa'' @ [0xE7, 0xE3]
        @ js ''o social.'',
      decreto =
        js ''Decreto 3.298/1999 e suas atualiza'' @ [0xE7, 0xF5] @ js ''es para classifica''
        @ [0xE7, 0xE3] @ js ''o e avalia'' @ [0xE7, 0xE3] @ js ''o''\<rparr>"

definition technicalReasoningFor ::
  "(jsstring \<Rightarrow> jsstring) \<Rightarrow> PCDOutcome \<Rightarrow> DeficiencyType option \<Rightarrow> jsstring list \<Rightarrow> bool
     \<Rightarrow> jsstring" where
  "technicalReasoningFor toLowerCase oc dt missing physical =
     (if oc = SIM then
        js ''Baseado na an'' @ [0xE1] @ js ''lise da documenta'' @ [0xE7, 0xE3]
        @ js ''o fornecida, identificou-se ''
        @ (case dt of None \<Rightarrow> js ''undefined'' | Some t \<Rightarrow> toLowerCase (deficiencyTypeName t))
        @ js '' com limita'' @ [0xE7, 0xF5] @ js ''es funcionais que atendem aos crit'' @ [0xE9]
        @ js ''rios da Lei 13.146/2015. A documenta'' @ [0xE7, 0xE3]
        @ js ''o apresenta evid'' @ [0xEA] @ js ''ncias cl'' @ [0xED]
        @ js ''nicas suficientes para caracterizar impedimento de longo prazo ''
        @ js ''que, em intera'' @ [0xE7, 0xE3]
        @ js ''o com barreiras, pode obstruir a participa'' @ [0xE7, 0xE3]
        @ js ''o plena na sociedade.''
      else if oc = NAO then
        js ''A documenta'' @ [0xE7, 0xE3] @ js ''o analisada n'' @ [0xE3]
        @ js ''o apresenta evid'' @ [0xEA]
        @ js ''ncias suficientes de impedimento de longo prazo que atenda aos ''
        @ js ''crit'' @ [0xE9] @ js ''rios estabelecidos pela Lei 13.146/2015. As condi''
        @ [0xE7, 0xF5] @ js ''es apresentadas n'' @ [0xE3] @ js ''o caracterizam defici''
        @ [0xEA] @ js ''ncia nos termos legais vigentes.''
      else
        js ''A documenta'' @ [0xE7, 0xE3] @ js ''o fornecida '' @ [0xE9]
        @ js '' insuficiente para conclus'' @ [0xE3] @ js ''o definitiva. ''
        @ (if length missing > 0 then js ''Faltam documentos essenciais.'' else [])
        @ js '' ''
        @ (if physical
           then js ''Recomenda-se avalia'' @ [0xE7, 0xE3] @ js ''o f'' @ [0xED]
                @ js ''sica presencial para melhor caracteriza'' @ [0xE7, 0xE3] @ js ''o.''
           else []))"

text \<open>
  The \<open>try\<close> block: \<open>Inl\<close> is an exception thrown inside it. The console output of the
  tool is not part of the result and is left out.
\<close>

definition evaluateBody ::
  "(jsstring \<Rightarrow> jsstring) \<Rightarrow> document list \<Rightarrow> js_error + PCDEvaluationResult" where
  "evaluateBody toLowerCase docs =
     (let missing = missingDocs docs
      in case analyzeDocs toLowerCase initial_scan docs of
           Inl e \<Rightarrow> Inl e
         | Inr st \<Rightarrow>
             (case determineOutcome missing (st_deficiencyType st)
                     (st_functionalLimitations st) (length docs) of
                (oc, conf, sev, physical) \<Rightarrow>
                  Inr \<lparr>outcome = oc,
                       confidence = conf,
                       deficiencyType = st_deficiencyType st,
                       severityLevel = sev,
                       functionalLimitations = st_functionalLimitations st,
                       compensatoryFactors =
                         [js ''Capacidade adaptativa preservada'',
                          js ''Uso de tecnologia assistiva'',
                          js ''Suporte familiar adequado''],
                       legalJustification = legalJustificationFull,
                       clinicalEvidence = st_clinicalEvidence st,
                       missingDocumentation = missing,
                       technicalReasoning =
                         technicalReasoningFor toLowerCase oc (st_deficiencyType st) missing
                           physical,
                       requiresPhysicalEvaluation = physical\<rparr>))"

text \<open>The object that the \<open>catch\<close> block returns.\<close>

definition degradedResult :: PCDEvaluationResult where
  "degradedResult =
     \<lparr>outcome = TALVEZ,
      confidence = 1 / 10,
      deficiencyType = None,
      severityLevel = None,
      functionalLimitations = [],
      compensatoryFactors = [],
      legalJustification =
        \<lparr>lei13146 = js ''Lei 13.146/2015 - Lei Brasileira de Inclus'' @ [0xE3] @ js ''o'',
         cif = js ''Classifica'' @ [0xE7, 0xE3]
               @ js ''o Internacional de Funcionalidade, Incapacidade e Sa'' @ [0xFA] @ js ''de'',
         decreto = js ''Decreto 3.298/1999''\<rparr>,
      clinicalEvidence = [],
      missingDocumentation =
        [js ''Erro na an'' @ [0xE1] @ js ''lise - revis'' @ [0xE3] @ js ''o manual necess''
         @ [0xE1] @ js ''ria''],
      technicalReasoning =
        js ''Erro t'' @ [0xE9] @ js ''cnico durante a an'' @ [0xE1]
        @ js ''lise. Recomenda-se revis'' @ [0xE3] @ js ''o manual completa da documenta''
        @ [0xE7, 0xE3] @ js ''o.'',
      requiresPhysicalEvaluation = True\<rparr>"

text \<open>
  The \<open>try\<close> block and the \<open>catch\<close> block of \<open>execute\<close>: what the tool returns when
  \<open>documentationProvided\<close> is an array, as the schema declares it.
\<close>

definition evaluatePCDEligibility ::
  "(jsstring \<Rightarrow> jsstring) \<Rightarrow> document list \<Rightarrow> PCDEvaluationResult" where
  "evaluatePCDEligibility toLowerCase docs =
     (case evaluateBody toLowerCase docs of
        Inl e \<Rightarrow> degradedResult
      | Inr r \<Rightarrow> r)"


text \<open>A document entry as the schema describes it: its content is a string.\<close>

definition mkdoc :: "DocumentKind \<Rightarrow> jsstring \<Rightarrow> document" where
  "mkdoc k c =
     \<lparr>doc_type = k, doc_content = Some c, issueDate = None, professionalCRM = None,
      specialization = None\<rparr>"

section \<open>The document analysis tool (\<open>analyzePCDDocumentFromPDF\<close>)\<close>

datatype DetectedDeficiencyType = Detected DeficiencyType | NAO_IDENTIFICADA

datatype ExpectedDeficiencyType = Expected DeficiencyType | DESCONHECIDA

datatype DocumentQuality = EXCELENTE | BOA | REGULAR | INSUFICIENTE

text \<open>What \<open>extractTextFromPDF\<close> returns.\<close>

record ExtractionResult =
  extractedText :: jsstring
  pagesCount :: nat

record ExtractedContent =
  rawText :: jsstring
  ec_pagesCount :: nat
  characterCount :: nat

record MedicalDocuments =
  hasCurrentMedicalReport :: bool
  hasSpecialistReport :: bool
  hasComplementaryExams :: bool
  hasCIDDiagnosis :: bool
  issuerQualifications :: "jsstring list"

record LegalCompliance =
  meetsLei13146Requirements :: bool
  meetsCIFCriteria :: bool
  hasProperMedicalSignature :: bool
  hasValidCRM :: bool

record DocumentAnalysisResult =
  completenessScore :: int
  hasRequiredDocuments :: bool
  missingDocuments :: "jsstring list"
  documentQuality :: DocumentQuality
  extractedContent :: ExtractedContent
  medicalDocuments :: MedicalDocuments
  legalCompliance :: LegalCompliance
  detectedDeficiencyType :: DetectedDeficiencyType
  recommendations :: "jsstring list"
  urgencyFlags :: "jsstring list"

text \<open>
  \<open>RegExp.prototype.test\<close> for a pattern without flags: the pattern matches at the start of
  some suffix of the string. \<open>digitAhead\<close> is \<open>\d+\<close> at the start of a string.
\<close>

fun regexTest :: "(jsstring \<Rightarrow> bool) \<Rightarrow> jsstring \<Rightarrow> bool" where
  "regexTest m [] = m []"
| "regexTest m (c # cs) = (m (c # cs) \<or> regexTest m cs)"

fun digitAhead :: "jsstring \<Rightarrow> bool" where
  "digitAhead [] = False"
| "digitAhead (c # cs) = isDigit c"

text \<open>The pattern \<open>/cid-?\d+/\<close>.\<close>

definition matchCid :: "jsstring \<Rightarrow> bool" where
  "matchCid s =
     (startsWith s (js ''cid'')
      \<and> (digitAhead (drop 3 s) \<or> (startsWith (drop 3 s) (js ''-'') \<and> digitAhead (drop 4 s))))"

text \<open>The pattern \<open>/crm[\s-]*\d+/\<close>.\<close>

definition matchCrm :: "jsstring \<Rightarrow> bool" where
  "matchCrm s =
     (startsWith s (js ''crm'')
      \<and> digitAhead (dropWhile (\<lambda>c. isWhiteSpace c \<or> c = 0x2D) (drop 3 s)))"

text \<open>The conditions of the five detection rules, in the order of the source.\<close>

definition matchesFISICA :: "jsstring \<Rightarrow> bool" where
  "matchesFISICA content =
     (js_includes content (js ''defici'' @ [0xEA] @ js ''ncia f'' @ [0xED] @ js ''sica'')
      \<or> js_includes content (js ''deficiencia fisica'')
      \<or> js_includes content (js ''mobilidade reduzida'')
      \<or> js_includes content (js ''paraplegia'')
      \<or> js_includes content (js ''amputa'' @ [0xE7, 0xE3] @ js ''o'')
      \<or> js_includes content (js ''amputacao''))"

definition matchesINTELECTUAL :: "jsstring \<Rightarrow> bool" where
  "matchesINTELECTUAL content =
     (js_includes content (js ''defici'' @ [0xEA] @ js ''ncia intelectual'')
      \<or> js_includes content (js ''deficiencia intelectual'')
      \<or> js_includes content (js ''retardo mental'')
      \<or> js_includes content (js ''transtorno do desenvolvimento''))"

definition matchesAUDITIVA :: "jsstring \<Rightarrow> bool" where
  "matchesAUDITIVA content =
     (js_includes content (js ''defici'' @ [0xEA] @ js ''ncia auditiva'')
      \<or> js_includes content (js ''deficiencia auditiva'')
      \<or> js_includes content (js ''surdez'')
      \<or> js_includes content (js ''perda auditiva'')
      \<or> js_includes content (js ''audiometria''))"

definition matchesVISUAL :: "jsstring \<Rightarrow> bool" where
  "matchesVISUAL content =
     (js_includes content (js ''defici'' @ [0xEA] @ js ''ncia visual'')
      \<or> js_includes content (js ''deficiencia visual'')
      \<or> js_includes content (js ''cegueira'')
      \<or> js_includes content (js ''baixa vis'' @ [0xE3] @ js ''o'')
      \<or> js_includes content (js ''baixa visao'')
      \<or> js_includes content (js ''acuidade visual''))"

definition matchesPSICOSSOCIAL :: "jsstring \<Rightarrow> bool" where
  "matchesPSICOSSOCIAL content =
     (js_includes content (js ''transtorno mental'')
      \<or> js_includes content (js ''psicossocial'')
      \<or> js_includes content (js ''esquizofrenia'')
      \<or> js_includes content (js ''bipolar''))"

text \<open>
  The variables that the detection rules update: \<open>detectedDeficiencyType\<close>,
  \<open>issuerQualifications\<close> and \<open>missingDocuments\<close>.
\<close>

record classification =
  cl_detected :: DetectedDeficiencyType
  cl_issuerQualifications :: "jsstring list"
  cl_missingDocuments :: "jsstring list"

definition initial_classification :: classification where
  "initial_classification =
     \<lparr>cl_detected = NAO_IDENTIFICADA, cl_issuerQualifications = [], cl_missingDocuments = []\<rparr>"

definition ruleFISICA :: "jsstring \<Rightarrow> classification \<Rightarrow> classification" where
  "ruleFISICA content st =
     (if matchesFISICA content
      then st\<lparr>cl_detected := Detected FISICA,
              cl_issuerQualifications :=
                cl_issuerQualifications st @ [js ''Ortopedia'', js ''Fisiatria'']\<rparr>
      else st)"

definition ruleINTELECTUAL :: "jsstring \<Rightarrow> classification \<Rightarrow> classification" where
  "ruleINTELECTUAL content st =
     (if matchesINTELECTUAL content
      then st\<lparr>cl_detected := Detected INTELECTUAL,
              cl_issuerQualifications :=
                cl_issuerQualifications st @ [js ''Neurologia'', js ''Psiquiatria'']\<rparr>
      else st)"

definition ruleAUDITIVA :: "jsstring \<Rightarrow> classification \<Rightarrow> classification" where
  "ruleAUDITIVA content st =
     (if matchesAUDITIVA content
      then st\<lparr>cl_detected := Detected AUDITIVA,
              cl_issuerQualifications :=
                cl_issuerQualifications st @ [js ''Otorrinolaringologia'', js ''Fonoaudiologia''],
              cl_missingDocuments :=
                cl_missingDocuments st
                @ (if \<not> js_includes content (js ''audiometria'')
                      \<and> \<not> js_includes content (js ''bera'')
                   then [js ''Audiometria ou BERA (obrigatorio para deficiencia auditiva)'']
                   else [])\<rparr>
      else st)"

definition ruleVISUAL :: "jsstring \<Rightarrow> classification \<Rightarrow> classification" where
  "ruleVISUAL content st =
     (if matchesVISUAL content
      then st\<lparr>cl_detected := Detected VISUAL,
              cl_issuerQualifications := cl_issuerQualifications st @ [js ''Oftalmologia''],
              cl_missingDocuments :=
                cl_missingDocuments st
                @ (if \<not> js_includes content (js ''acuidade visual'')
                      \<and> \<not> js_includes content (js ''campo visual'')
                   then [js ''Exame de acuidade visual e campo visual (obrigatorio para deficiencia visual)'']
                   else [])\<rparr>
      else st)"

definition rulePSICOSSOCIAL :: "jsstring \<Rightarrow> classification \<Rightarrow> classification" where
  "rulePSICOSSOCIAL content st =
     (if matchesPSICOSSOCIAL content
      then st\<lparr>cl_detected := Detected PSICOSSOCIAL,
              cl_issuerQualifications := cl_issuerQualifications st @ [js ''Psiquiatria'']\<rparr>
      else st)"

text \<open>The five rules in sequence: the state before the check for multiple deficiencies.\<close>

definition applyRules :: "jsstring \<Rightarrow> classification" where
  "applyRules content =
     rulePSICOSSOCIAL content
       (ruleVISUAL content
         (ruleAUDITIVA content
           (ruleINTELECTUAL content
             (ruleFISICA content initial_classification))))"

definition deficiencyKeywords :: "jsstring list" where
  "deficiencyKeywords =
     [js ''f'' @ [0xED] @ js ''sica'', js ''fisica'', js ''auditiva'', js ''visual'',
      js ''intelectual'', js ''psicossocial'']"

definition foundDeficiencies :: "jsstring \<Rightarrow> jsstring list" where
  "foundDeficiencies content = filter (\<lambda>kw. js_includes content kw) deficiencyKeywords"

text \<open>Detection of the deficiency type: the five rules, then the check for multiple deficiencies.\<close>

definition classify :: "jsstring \<Rightarrow> classification" where
  "classify content =
     (let st = applyRules content
      in if length (foundDeficiencies content) > 1
         then st\<lparr>cl_detected := Detected MULTIPLA\<rparr>
         else st)"

text \<open>
  The completeness score: the eight \<open>if (...) completenessScore += ...\<close> statements, in the
  order of the source. \<open>typeIdentified\<close> is \<open>detectedDeficiencyType !== 'NAO_IDENTIFICADA'\<close>.
\<close>

definition calcCompletenessScore ::
  "bool \<Rightarrow> bool \<Rightarrow> bool \<Rightarrow> bool \<Rightarrow> bool \<Rightarrow> bool \<Rightarrow> bool \<Rightarrow> bool \<Rightarrow> int" where
  "calcCompletenessScore hasLaudoMedico hasSpecialist hasCID hasSignature hasCRM typeIdentified
       meetsCIF hasExams =
     (let s0 = 0;
          s1 = (if hasLaudoMedico then s0 + 20 else s0);
          s2 = (if hasSpecialist then s1 + 20 else s1);
          s3 = (if hasCID then s2 + 10 else s2);
          s4 = (if hasSignature then s3 + 10 else s3);
          s5 = (if hasCRM then s4 + 10 else s4);
          s6 = (if typeIdentified then s5 + 15 else s5);
          s7 = (if meetsCIF then s6 + 5 else s6);
          s8 = (if hasExams then s7 + 10 else s7)
      in s8)"

definition qualityOf :: "int \<Rightarrow> DocumentQuality" where
  "qualityOf score =
     (if score \<ge> 85 then EXCELENTE
      else if score \<ge> 70 then BOA
      else if score \<ge> 50 then REGULAR
      else INSUFICIENTE)"

definition detectedName :: "DetectedDeficiencyType \<Rightarrow> jsstring" where
  "detectedName d =
     (case d of Detected t \<Rightarrow> deficiencyTypeName t | NAO_IDENTIFICADA \<Rightarrow> js ''NAO_IDENTIFICADA'')"

definition expectedName :: "ExpectedDeficiencyType \<Rightarrow> jsstring" where
  "expectedName x =
     (case x of Expected t \<Rightarrow> deficiencyTypeName t | DESCONHECIDA \<Rightarrow> js ''DESCONHECIDA'')"

text \<open>The comparison \<open>detectedDeficiencyType !== expectedDeficiencyType\<close> of two enum strings.\<close>

definition differsFrom :: "DetectedDeficiencyType \<Rightarrow> ExpectedDeficiencyType \<Rightarrow> bool" where
  "differsFrom d x =
     (case (d, x) of (Detected t, Expected t') \<Rightarrow> t \<noteq> t' | _ \<Rightarrow> True)"

text \<open>
  Step 3 of the \<open>try\<close> block: the analysis of \<open>content\<close>, the lower-cased extracted text.
\<close>

definition analyzeContent ::
  "ExpectedDeficiencyType option \<Rightarrow> ExtractionResult \<Rightarrow> jsstring \<Rightarrow> DocumentAnalysisResult" where
  "analyzeContent expectedDeficiencyType extractionResult content =
     (let hasCID = (js_includes content (js ''cid'') \<or> js_includes content (js ''c.i.d'')
                    \<or> regexTest matchCid content);
          hasCRM = (js_includes content (js ''crm'') \<or> regexTest matchCrm content);
          hasSignature = (hasCRM \<and> (js_includes content (js ''dr.'')
                                      \<or> js_includes content (js ''dra.'')));
          cl = classify content;
          detected = cl_detected cl;
          hasLaudoMedico = (js_includes content (js ''laudo m'' @ [0xE9] @ js ''dico'')
                            \<or> js_includes content (js ''laudo medico'')
                            \<or> js_includes content (js ''parecer m'' @ [0xE9] @ js ''dico''));
          hasSpecialist = (js_includes content (js ''relat'' @ [0xF3] @ js ''rio'')
                           \<or> js_includes content (js ''relatorio'')
                           \<or> js_includes content (js ''especialista'')
                           \<or> js_includes content (js ''avalia'' @ [0xE7, 0xE3] @ js ''o''));
          hasExams = (js_includes content (js ''exame'')
                      \<or> js_includes content (js ''resultado'')
                      \<or> js_includes content (js ''tomografia''));
          meetsCIF = (js_includes content (js ''funcionalidade'')
                      \<or> js_includes content (js ''cif'')
                      \<or> js_includes content (js ''limita'' @ [0xE7, 0xE3] @ js ''o funcional'')
                      \<or> js_includes content (js ''limitacao funcional''));
          missing =
            cl_missingDocuments cl
            @ (if \<not> hasLaudoMedico then [js ''Laudo medico atualizado (obrigatorio)''] else [])
            @ (if \<not> hasCID then [js ''Diagnostico com codigo CID''] else [])
            @ (if \<not> hasCRM then [js ''Documento com CRM do medico''] else []);
          score = calcCompletenessScore hasLaudoMedico hasSpecialist hasCID hasSignature hasCRM
                    (detected \<noteq> NAO_IDENTIFICADA) meetsCIF hasExams;
          recs =
            (if length missing > 0 then [js ''Solicitar documentos faltantes listados''] else [])
            @ (if \<not> hasCRM
               then [js ''Verificar assinatura e carimbo medico com CRM valido''] else [])
            @ (if score < 70
               then [js ''Documentacao insuficiente - solicitar relatorio medico mais detalhado'']
               else [])
            @ (if detected = NAO_IDENTIFICADA
               then [js ''Identificar tipo especifico de deficiencia nos documentos''] else []);
          flags =
            (if \<not> hasCID
             then [js ''Falta diagnostico com CID - fundamental para avaliacao''] else [])
            @ (if detected = NAO_IDENTIFICADA
               then [js ''Tipo de deficiencia nao identificado no documento''] else [])
            @ (case expectedDeficiencyType of
                 None \<Rightarrow> []
               | Some x \<Rightarrow>
                   if x \<noteq> DESCONHECIDA \<and> differsFrom detected x \<and> detected \<noteq> NAO_IDENTIFICADA
                   then [js ''Tipo de deficiencia detectada ('' @ detectedName detected
                         @ js '') difere do esperado ('' @ expectedName x @ js '')'']
                   else []);
          required = (hasLaudoMedico \<and> hasCID)
      in \<lparr>completenessScore = score,
          hasRequiredDocuments = required,
          missingDocuments = missing,
          documentQuality = qualityOf score,
          extractedContent =
            \<lparr>rawText = extractedText extractionResult,
             ec_pagesCount = pagesCount extractionResult,
             characterCount = length (extractedText extractionResult)\<rparr>,
          medicalDocuments =
            \<lparr>hasCurrentMedicalReport = hasLaudoMedico,
             hasSpecialistReport = hasSpecialist,
             hasComplementaryExams = hasExams,
             hasCIDDiagnosis = hasCID,
             issuerQualifications = cl_issuerQualifications cl\<rparr>,
          legalCompliance =
            \<lparr>meetsLei13146Requirements = (required \<and> hasCID),
             meetsCIFCriteria = meetsCIF,
             hasProperMedicalSignature = hasSignature,
             hasValidCRM = hasCRM\<rparr>,
          detectedDeficiencyType = detected,
          recommendations = recs,
          urgencyFlags = flags\<rparr>)"

text \<open>The object that the \<open>catch\<close> block returns for an exception with message \<open>errorMessage\<close>.\<close>

definition analysisError :: "jsstring \<Rightarrow> DocumentAnalysisResult" where
  "analysisError errorMessage =
     \<lparr>completenessScore = 0,
      hasRequiredDocuments = False,
      missingDocuments = [js ''Erro na analise: '' @ errorMessage],
      documentQuality = INSUFICIENTE,
      extractedContent = \<lparr>rawText = [], ec_pagesCount = 0, characterCount = 0\<rparr>,
      medicalDocuments =
        \<lparr>hasCurrentMedicalReport = False,
         hasSpecialistReport = False,
         hasComplementaryExams = False,
         hasCIDDiagnosis = False,
         issuerQualifications = []\<rparr>,
      legalCompliance =
        \<lparr>meetsLei13146Requirements = False,
         meetsCIFCriteria = False,
         hasProperMedicalSignature = False,
         hasValidCRM = False\<rparr>,
      detectedDeficiencyType = NAO_IDENTIFICADA,
      recommendations =
        [js ''Erro tecnico na analise - reprocessar documentacao ou verificar URL do PDF''],
      urgencyFlags = [js ''Sistema indisponivel ou PDF invalido - analise manual urgente'']\<rparr>"

text \<open>
  \<open>execute\<close> of the tool. Steps 1 and 2 (the download and \<open>extractTextFromPDF\<close>) are the
  argument \<open>extraction\<close>: \<open>Inl m\<close> when one of them throws, with \<open>m\<close> the message that the
  \<open>catch\<close> block reads, \<open>Inr r\<close> when the text was extracted. An empty or blank text throws
  before step 3.
\<close>

definition analyzePCDDocumentFromPDF ::
  "(jsstring \<Rightarrow> jsstring) \<Rightarrow> ExpectedDeficiencyType option \<Rightarrow> jsstring + ExtractionResult
     \<Rightarrow> DocumentAnalysisResult" where
  "analyzePCDDocumentFromPDF toLowerCase expectedDeficiencyType extraction =
     (case extraction of
        Inl errorMessage \<Rightarrow> analysisError errorMessage
      | Inr extractionResult \<Rightarrow>
          if extractedText extractionResult = [] \<or> trim (extractedText extractionResult) = []
          then analysisError (js ''Nenhum texto pode ser extraido do PDF'')
          else analyzeContent expectedDeficiencyType extractionResult
                 (toLowerCase (extractedText extractionResult)))"

section \<open>The report tool (\<open>generateLaudoCaracterizador\<close>)\<close>

datatype Prognosis = TEMPORARIA | PERMANENTE

record CandidateInfo =
  ci_fullName :: jsstring
  ci_cpf :: jsstring
  ci_rg :: "jsstring option"
  ci_birthDate :: jsstring
  ci_address :: "jsstring option"
  ci_phone :: "jsstring option"
  ci_email :: "jsstring option"

record MedicalInfo =
  mi_deficiencyType :: DeficiencyType
  mi_cidCode :: jsstring
  mi_cifCode :: "jsstring option"
  mi_diagnosis :: jsstring
  mi_onsetDate :: "jsstring option"
  mi_prognosis :: Prognosis
  mi_severityLevel :: SeverityLevel

record FunctionalAssessment =
  fa_functionalLimitations :: "jsstring list"
  fa_preservedFunctions :: "jsstring list"
  fa_adaptiveCapacity :: jsstring
  fa_assistiveTechnology :: "jsstring list"

record ProfessionalInfo =
  pi_doctorName :: jsstring
  pi_crm :: jsstring
  pi_specialization :: jsstring
  pi_issueDate :: jsstring
  pi_expirationDate :: "jsstring option"

record LegalBasis =
  lb_lei13146 :: bool
  lb_decreto3298 :: bool
  lb_cif :: bool
  lb_otherLaws :: "jsstring list option"

record LaudoCaracterizadorData =
  candidateInfo :: CandidateInfo
  medicalInfo :: MedicalInfo
  functionalAssessment :: FunctionalAssessment
  professionalInfo :: ProfessionalInfo
  legalBasis :: LegalBasis

text \<open>
  What the tool reads from the clock: \<open>nowText\<close> is the decimal text of \<open>Date.now()\<close>,
  \<open>currentDate\<close> is \<open>new Date().toLocaleDateString('pt-BR')\<close>.
\<close>

record Clock =
  nowText :: jsstring
  currentDate :: jsstring

definition prognosisName :: "Prognosis \<Rightarrow> jsstring" where
  "prognosisName p = (case p of TEMPORARIA \<Rightarrow> js ''TEMPORARIA'' | PERMANENTE \<Rightarrow> js ''PERMANENTE'')"

definition severityName :: "SeverityLevel \<Rightarrow> jsstring" where
  "severityName s =
     (case s of LEVE \<Rightarrow> js ''LEVE'' | MODERADA \<Rightarrow> js ''MODERADA'' | GRAVE \<Rightarrow> js ''GRAVE''
      | GRAVISSIMA \<Rightarrow> js ''GRAVISSIMA'')"

text \<open>
  A template line \<open>${field ? `label${field}` : ''}\<close>: an absent field and the empty string
  are both falsy.
\<close>

definition optionalLine :: "jsstring \<Rightarrow> jsstring option \<Rightarrow> jsstring" where
  "optionalLine label field =
     (case field of None \<Rightarrow> [] | Some v \<Rightarrow> if v \<noteq> [] then label @ v else [])"

text \<open>\<open>items.map((x) => `- ${x}`).join('\n')\<close>\<close>

definition bullets :: "jsstring list \<Rightarrow> jsstring" where
  "bullets items = join [0xA] (map (\<lambda>x. js ''- '' @ x) items)"

definition makeLaudoId :: "Clock \<Rightarrow> CandidateInfo \<Rightarrow> jsstring" where
  "makeLaudoId clock ci =
     js ''LAUDO-PCD-'' @ nowText clock @ js ''-'' @ filter isDigit (ci_cpf ci)"

text \<open>
  The lines of the template literal of \<open>fullDocument\<close>, in the order of the source, one
  entry for each line of the template between its opening and its closing line.
\<close>

definition laudoLines ::
  "(jsstring \<Rightarrow> jsstring) \<Rightarrow> Clock \<Rightarrow> LaudoCaracterizadorData \<Rightarrow> jsstring list" where
  "laudoLines toLowerCase clock d =
     (let ci = candidateInfo d; mi = medicalInfo d; fa = functionalAssessment d;
          pi = professionalInfo d; lb = legalBasis d;
          laudoId = makeLaudoId clock ci
      in [js ''LAUDO CARACTERIZADOR DE PESSOA COM DEFICIENCIA'',
          js ''==============================================='',
          [],
          js ''IDENTIFICACAO DO LAUDO'',
          js ''Numero do Laudo: '' @ laudoId,
          js ''Data de Emissao: '' @ currentDate clock,
          js ''Validade: 2 anos a partir da data de emissao'',
          [],
          js ''DADOS DO AVALIADO'',
          js ''Nome Completo: '' @ ci_fullName ci,
          js ''CPF: '' @ ci_cpf ci,
          optionalLine (js ''RG: '') (ci_rg ci),
          js ''Data de Nascimento: '' @ ci_birthDate ci,
          optionalLine (js ''Endereco: '') (ci_address ci),
          optionalLine (js ''Telefone: '') (ci_phone ci),
          optionalLine (js ''Email: '') (ci_email ci),
          [],
          js ''INFORMACOES MEDICAS'',
          js ''Tipo de Deficiencia: '' @ deficiencyTypeName (mi_deficiencyType mi),
          js ''Diagnostico Principal: '' @ mi_diagnosis mi,
          js ''CID-10: '' @ mi_cidCode mi,
          optionalLine (js ''CIF: '') (mi_cifCode mi),
          optionalLine (js ''Data de Inicio: '') (mi_onsetDate mi),
          js ''Prognostico: '' @ prognosisName (mi_prognosis mi),
          js ''Grau da Deficiencia: '' @ severityName (mi_severityLevel mi),
          [],
          js ''AVALIACAO FUNCIONAL'',
          [],
          js ''Limitacoes Funcionais Identificadas:'',
          bullets (fa_functionalLimitations fa),
          [],
          js ''Funcoes Preservadas:'',
          bullets (fa_preservedFunctions fa),
          [],
          js ''Capacidade Adaptativa:'',
          fa_adaptiveCapacity fa,
          [],
          (if length (fa_assistiveTechnology fa) > 0
           then [0xA] @ js ''Tecnologias Assistivas:'' @ [0xA]
                @ bullets (fa_assistiveTechnology fa) @ [0xA]
           else []),
          [],
          js ''CONCLUSAO TECNICA'',
          js ''Com base na avaliacao medica realizada e na analise da documentacao apresentada,'',
          js ''ATESTO que '' @ ci_fullName ci @ js '', portador(a) do CPF '' @ ci_cpf ci @ js '','',
          js ''apresenta deficiencia do tipo ''
            @ toLowerCase (deficiencyTypeName (mi_deficiencyType mi)) @ js '','',
          js ''enquadrando-se nos criterios estabelecidos pela legislacao brasileira para'',
          js ''PESSOA COM DEFICIENCIA (PCD).'',
          [],
          js ''O diagnostico de '' @ mi_diagnosis mi @ js '' (CID-10: '' @ mi_cidCode mi @ js '')'',
          js ''configura impedimento de longo prazo que, em interacao com diversas barreiras,'',
          js ''pode obstruir a participacao plena e efetiva na sociedade em igualdade de'',
          js ''condicoes com as demais pessoas.'',
          [],
          js ''FUNDAMENTACAO LEGAL'',
          (if lb_lei13146 lb
           then js ''- Lei no 13.146/2015 (Lei Brasileira de Inclusao da Pessoa com Deficiencia)''
           else []),
          (if lb_decreto3298 lb
           then js ''- Decreto no 3.298/1999 (Regulamenta a Lei no 7.853/1989)'' else []),
          (if lb_cif lb
           then js ''- Classificacao Internacional de Funcionalidade, Incapacidade e Saude (CIF/OMS)''
           else []),
          (case lb_otherLaws lb of
             None \<Rightarrow> []
           | Some laws \<Rightarrow> if length laws > 0 then bullets laws else []),
          [],
          js ''Este laudo tem validade de 2 (dois) anos a partir da data de emissao e'',
          js ''foi elaborado de acordo com as normas tecnicas vigentes e criterios'',
          js ''estabelecidos pela legislacao brasileira.'',
          [],
          js ''RESPONSAVEL TECNICO'',
          js ''Dr(a). '' @ pi_doctorName pi,
          js ''CRM: '' @ pi_crm pi,
          js ''Especialidade: '' @ pi_specialization pi,
          [],
          js ''_________________________________'',
          js ''Assinatura e Carimbo'',
          [],
          js ''Data: '' @ currentDate clock,
          js ''Local: Sao Paulo/SP'',
          [],
          js ''==============================================='',
          js ''Este documento possui validade legal e foi emitido em conformidade'',
          js ''com a legislacao brasileira vigente sobre pessoas com deficiencia.''])"

text \<open>
  \<open>fullDocument\<close>: the template literal starts and ends with a line break, and is trimmed.
\<close>

definition fullDocument ::
  "(jsstring \<Rightarrow> jsstring) \<Rightarrow> Clock \<Rightarrow> LaudoCaracterizadorData \<Rightarrow> jsstring" where
  "fullDocument toLowerCase clock d =
     trim ([0xA] @ join [0xA] (laudoLines toLowerCase clock d) @ [0xA])"

text \<open>The lines of a text: \<open>text.split('\n')\<close>.\<close>

fun splitLines :: "jsstring \<Rightarrow> jsstring list" where
  "splitLines [] = [[]]"
| "splitLines (c # cs) =
     (if c = 0xA then [] # splitLines cs
      else (case splitLines cs of l # ls \<Rightarrow> (c # l) # ls | [] \<Rightarrow> [[c]]))"

section \<open>Notions used in the statements\<close>

text \<open>
  Two invariants of the loop of \<open>evaluatePCDEligibility\<close>: a detected type comes with a
  finding, and only four of the six types are ever assigned.
\<close>

definition finding_with_type :: "scan_state \<Rightarrow> bool" where
  "finding_with_type st = (st_deficiencyType st = None \<or> st_functionalLimitations st \<noteq> [])"

definition base_typed :: "scan_state \<Rightarrow> bool" where
  "base_typed st =
     (st_deficiencyType st \<in> {None, Some FISICA, Some INTELECTUAL, Some AUDITIVA, Some VISUAL})"

text \<open>
  The notions of the specification of the classifier, to compare with the code: the
  rules whose trigger set matches the text, in rule order; the type of the last of them;
  the qualifications and the exam gap that one rule contributes; and the base types that
  the keywords of the check for multiple deficiencies name (the two spellings of the
  first keyword name the same type).
\<close>

definition matchedRules :: "jsstring \<Rightarrow> DeficiencyType list" where
  "matchedRules content =
     (if matchesFISICA content then [FISICA] else [])
     @ (if matchesINTELECTUAL content then [INTELECTUAL] else [])
     @ (if matchesAUDITIVA content then [AUDITIVA] else [])
     @ (if matchesVISUAL content then [VISUAL] else [])
     @ (if matchesPSICOSSOCIAL content then [PSICOSSOCIAL] else [])"

definition lastMatch :: "jsstring \<Rightarrow> DetectedDeficiencyType" where
  "lastMatch content =
     (case rev (matchedRules content) of [] \<Rightarrow> NAO_IDENTIFICADA | t # ts \<Rightarrow> Detected t)"

definition qualificationsOf :: "DeficiencyType \<Rightarrow> jsstring list" where
  "qualificationsOf t =
     (case t of
        FISICA \<Rightarrow> [js ''Ortopedia'', js ''Fisiatria'']
      | INTELECTUAL \<Rightarrow> [js ''Neurologia'', js ''Psiquiatria'']
      | AUDITIVA \<Rightarrow> [js ''Otorrinolaringologia'', js ''Fonoaudiologia'']
      | VISUAL \<Rightarrow> [js ''Oftalmologia'']
      | PSICOSSOCIAL \<Rightarrow> [js ''Psiquiatria'']
      | MULTIPLA \<Rightarrow> [])"

definition gapsOf :: "jsstring \<Rightarrow> DeficiencyType \<Rightarrow> jsstring list" where
  "gapsOf content t =
     (case t of
        AUDITIVA \<Rightarrow>
          if \<not> js_includes content (js ''audiometria'') \<and> \<not> js_includes content (js ''bera'')
          then [js ''Audiometria ou BERA (obrigatorio para deficiencia auditiva)''] else []
      | VISUAL \<Rightarrow>
          if \<not> js_includes content (js ''acuidade visual'')
             \<and> \<not> js_includes content (js ''campo visual'')
          then [js ''Exame de acuidade visual e campo visual (obrigatorio para deficiencia visual)'']
          else []
      | _ \<Rightarrow> [])"

definition keywordTypes :: "jsstring \<Rightarrow> DeficiencyType list" where
  "keywordTypes content =
     (if js_includes content (js ''f'' @ [0xED] @ js ''sica'') \<or> js_includes content (js ''fisica'')
      then [FISICA] else [])
     @ (if js_includes content (js ''auditiva'') then [AUDITIVA] else [])
     @ (if js_includes content (js ''visual'') then [VISUAL] else [])
     @ (if js_includes content (js ''intelectual'') then [INTELECTUAL] else [])
     @ (if js_includes content (js ''psicossocial'') then [PSICOSSOCIAL] else [])"

text \<open>A dossier without optional fields and a clock reading, for the concrete runs.\<close>

definition minimalDossier :: LaudoCaracterizadorData where
  "minimalDossier =
     \<lparr>candidateInfo =
        \<lparr>ci_fullName = js ''Ana Lima'', ci_cpf = js ''123.456.789-00'', ci_rg = None,
         ci_birthDate = js ''01/02/1990'', ci_address = None, ci_phone = None,
         ci_email = Some []\<rparr>,
      medicalInfo =
        \<lparr>mi_deficiencyType = AUDITIVA, mi_cidCode = js ''H90.3'', mi_cifCode = None,
         mi_diagnosis = js ''Surdez'', mi_onsetDate = None, mi_prognosis = PERMANENTE,
         mi_severityLevel = GRAVE\<rparr>,
      functionalAssessment =
        \<lparr>fa_functionalLimitations = [js ''Audicao''], fa_preservedFunctions = [js ''Visao''],
         fa_adaptiveCapacity = js ''Boa'', fa_assistiveTechnology = []\<rparr>,
      professionalInfo =
        \<lparr>pi_doctorName = js ''Rui Paz'', pi_crm = js ''12345'',
         pi_specialization = js ''Otorrino'', pi_issueDate = js ''03/11/2026'',
         pi_expirationDate = None\<rparr>,
      legalBasis =
        \<lparr>lb_lei13146 = True, lb_decreto3298 = True, lb_cif = True, lb_otherLaws = None\<rparr>\<rparr>"

definition exampleClock :: Clock where
  "exampleClock = \<lparr>nowText = js ''1793700000000'', currentDate = js ''03/11/2026''\<rparr>"

section \<open>Properties of the eligibility evaluation\<close>

subsection \<open>The loop over the documents\<close>

lemma detect_finding_with_type:
  "finding_with_type st \<Longrightarrow> finding_with_type (detect hit t f st)"
  by (simp add: detect_def finding_with_type_def)

lemma evidence_finding_with_type:
  "finding_with_type st \<Longrightarrow> finding_with_type (evidence hit e st)"
  by (simp add: evidence_def finding_with_type_def)

lemma detect_base_typed:
  "base_typed st \<Longrightarrow> t \<in> {FISICA, INTELECTUAL, AUDITIVA, VISUAL} \<Longrightarrow>
   base_typed (detect hit t f st)"
  by (auto simp add: detect_def base_typed_def)

lemma evidence_base_typed: "base_typed st \<Longrightarrow> base_typed (evidence hit e st)"
  by (simp add: evidence_def base_typed_def)

lemma analyzeDoc_throws: "(analyzeDoc lower st doc = Inl e) = (doc_content doc = None)"
  by (cases e) (simp add: analyzeDoc_def Let_def split: option.splits)

lemma analyzeDoc_finding_with_type:
  "analyzeDoc lower st doc = Inr st' \<Longrightarrow> finding_with_type st \<Longrightarrow> finding_with_type st'"
  by (auto simp add: analyzeDoc_def Let_def split: option.splits
      intro!: detect_finding_with_type evidence_finding_with_type)

lemma analyzeDoc_base_typed:
  "analyzeDoc lower st doc = Inr st' \<Longrightarrow> base_typed st \<Longrightarrow> base_typed st'"
  by (auto simp add: analyzeDoc_def Let_def split: option.splits
      intro!: detect_base_typed evidence_base_typed)

lemma analyzeDocs_finding_with_type:
  "analyzeDocs lower st docs = Inr st' \<Longrightarrow> finding_with_type st \<Longrightarrow> finding_with_type st'"
proof (induction docs arbitrary: st)
  case Nil
  then show ?case by simp
next
  case (Cons doc docs)
  from Cons.prems(1) obtain st1 where s1: "analyzeDoc lower st doc = Inr st1"
    and s2: "analyzeDocs lower st1 docs = Inr st'"
    by (auto split: sum.splits)
  from Cons.IH [OF s2 analyzeDoc_finding_with_type [OF s1 Cons.prems(2)]]
  show ?case .
qed

lemma analyzeDocs_base_typed:
  "analyzeDocs lower st docs = Inr st' \<Longrightarrow> base_typed st \<Longrightarrow> base_typed st'"
proof (induction docs arbitrary: st)
  case Nil
  then show ?case by simp
next
  case (Cons doc docs)
  from Cons.prems(1) obtain st1 where s1: "analyzeDoc lower st doc = Inr st1"
    and s2: "analyzeDocs lower st1 docs = Inr st'"
    by (auto split: sum.splits)
  from Cons.IH [OF s2 analyzeDoc_base_typed [OF s1 Cons.prems(2)]]
  show ?case .
qed

text \<open>The loop throws exactly when the content of some entry is not a string.\<close>

lemma analyzeDocs_throws:
  "(\<exists>e. analyzeDocs lower st docs = Inl e) = (\<exists>doc \<in> set docs. doc_content doc = None)"
proof (induction docs arbitrary: st)
  case Nil
  then show ?case by simp
next
  case (Cons doc docs)
  show ?case
  proof (cases "doc_content doc")
    case None
    then have "analyzeDoc lower st doc = Inl TypeError"
      by (simp add: analyzeDoc_throws)
    with None show ?thesis by simp
  next
    case (Some raw)
    then obtain st1 where s1: "analyzeDoc lower st doc = Inr st1"
      by (cases "analyzeDoc lower st doc") (simp_all add: analyzeDoc_throws)
    with Some Cons.IH [of st1] show ?thesis by simp
  qed
qed

lemma initial_scan_finding_with_type: "finding_with_type initial_scan"
  by (simp add: finding_with_type_def initial_scan_def)

lemma initial_scan_base_typed: "base_typed initial_scan"
  by (simp add: base_typed_def initial_scan_def)


subsection \<open>The result in terms of the loop\<close>

lemma evaluate_fields:
  assumes "analyzeDocs lower initial_scan docs = Inr st"
  shows "(outcome (evaluatePCDEligibility lower docs),
          confidence (evaluatePCDEligibility lower docs),
          severityLevel (evaluatePCDEligibility lower docs),
          requiresPhysicalEvaluation (evaluatePCDEligibility lower docs)) =
         determineOutcome (missingDocs docs) (st_deficiencyType st)
           (st_functionalLimitations st) (length docs)"
    and "deficiencyType (evaluatePCDEligibility lower docs) = st_deficiencyType st"
    and "functionalLimitations (evaluatePCDEligibility lower docs) = st_functionalLimitations st"
    and "clinicalEvidence (evaluatePCDEligibility lower docs) = st_clinicalEvidence st"
    and "missingDocumentation (evaluatePCDEligibility lower docs) = missingDocs docs"
  using assms
  by (simp_all add: evaluatePCDEligibility_def evaluateBody_def Let_def split: prod.splits)

lemma evaluate_degraded:
  assumes "analyzeDocs lower initial_scan docs = Inl e"
  shows "evaluatePCDEligibility lower docs = degradedResult"
  using assms by (simp add: evaluatePCDEligibility_def evaluateBody_def Let_def)

lemmas evaluate_run = evaluatePCDEligibility_def evaluateBody_def Let_def mkdoc_def analyzeDoc_def
  initial_scan_def detect_def evidence_def missingDocs_def determineOutcome_def js_def
  toLowerCaseLatin1_def

subsection \<open>The decision table\<close>

text \<open>
  For entries whose content is a string, the outcome is the first matching row of the
  table, read on the returned assessment.
\<close>

lemma decision_table:
  assumes "\<forall>doc \<in> set docs. doc_content doc \<noteq> None"
  shows "(outcome (evaluatePCDEligibility lower docs),
          confidence (evaluatePCDEligibility lower docs),
          severityLevel (evaluatePCDEligibility lower docs),
          requiresPhysicalEvaluation (evaluatePCDEligibility lower docs)) =
         (if missingDocumentation (evaluatePCDEligibility lower docs) \<noteq> []
          then (TALVEZ, 3 / 10, None, False)
          else if deficiencyType (evaluatePCDEligibility lower docs) \<noteq> None
                  \<and> functionalLimitations (evaluatePCDEligibility lower docs) \<noteq> []
          then (SIM, 8 / 10, Some MODERADA, False)
          else if docs \<noteq> [] \<and> deficiencyType (evaluatePCDEligibility lower docs) \<noteq> None
          then (TALVEZ, 6 / 10, None, True)
          else (NAO, 7 / 10, None, False))"
proof -
  from assms have "\<not> (\<exists>e. analyzeDocs lower initial_scan docs = Inl e)"
    by (simp add: analyzeDocs_throws)
  then obtain st where st: "analyzeDocs lower initial_scan docs = Inr st"
    by (cases "analyzeDocs lower initial_scan docs") auto
  show ?thesis
    unfolding evaluate_fields [OF st]
    by (simp add: determineOutcome_def)
qed

text \<open>The first, the second and the fourth row are reached.\<close>

lemma first_row_reached:
  "outcome (evaluatePCDEligibility toLowerCaseLatin1 [mkdoc LAUDO_MEDICO (js ''Paciente com surdez'')])
     = TALVEZ
   \<and> confidence (evaluatePCDEligibility toLowerCaseLatin1
        [mkdoc LAUDO_MEDICO (js ''Paciente com surdez'')]) = 3 / 10"
  by (simp add: evaluate_run)

lemma second_row_reached:
  "outcome (evaluatePCDEligibility toLowerCaseLatin1
     [mkdoc LAUDO_MEDICO (js ''Defici'' @ [0xEA] @ js ''ncia f'' @ [0xED] @ js ''sica'' ),
      mkdoc RELATORIO_ESPECIALISTA (js ''Limita'' @ [0xE7, 0xE3] @ js ''o funcional'')]) = SIM
   \<and> confidence (evaluatePCDEligibility toLowerCaseLatin1
     [mkdoc LAUDO_MEDICO (js ''Defici'' @ [0xEA] @ js ''ncia f'' @ [0xED] @ js ''sica'' ),
      mkdoc RELATORIO_ESPECIALISTA (js ''Limita'' @ [0xE7, 0xE3] @ js ''o funcional'')]) = 8 / 10
   \<and> severityLevel (evaluatePCDEligibility toLowerCaseLatin1
     [mkdoc LAUDO_MEDICO (js ''Defici'' @ [0xEA] @ js ''ncia f'' @ [0xED] @ js ''sica'' ),
      mkdoc RELATORIO_ESPECIALISTA (js ''Limita'' @ [0xE7, 0xE3] @ js ''o funcional'')])
      = Some MODERADA"
  by (simp add: evaluate_run)

lemma fourth_row_reached:
  "outcome (evaluatePCDEligibility toLowerCaseLatin1
     [mkdoc LAUDO_MEDICO (js ''Paciente saudavel''),
      mkdoc RELATORIO_ESPECIALISTA (js ''Sem outras observacoes'')]) = NAO
   \<and> confidence (evaluatePCDEligibility toLowerCaseLatin1
     [mkdoc LAUDO_MEDICO (js ''Paciente saudavel''),
      mkdoc RELATORIO_ESPECIALISTA (js ''Sem outras observacoes'')]) = 7 / 10"
  by (simp add: evaluate_run)

text \<open>
  Claim C1. The claim says that the outcome is decided by the first matching row of the
  table and that each of the four rows is reached by some input. The table is followed
  (\<open>decision_table\<close>) and three rows are reached, but the third row (a detected type
  without a finding: \<open>TALVEZ\<close>, confidence 0.6, physical evaluation required) is never
  reached: the statement that sets the type also pushes a finding, so no list of
  documents gives confidence 0.6. Two documents of the required kinds that name a
  deficiency and hold no functional-limitation phrase are confirmed (\<open>SIM\<close>, 0.8).
\<close>

theorem third_row_never_reached:
  "confidence (evaluatePCDEligibility lower docs) \<noteq> 6 / 10
   \<and> outcome (evaluatePCDEligibility toLowerCaseLatin1
        [mkdoc LAUDO_MEDICO (js ''Paciente com surdez''),
         mkdoc RELATORIO_ESPECIALISTA (js ''Sem outras observacoes'')]) = SIM
   \<and> confidence (evaluatePCDEligibility toLowerCaseLatin1
        [mkdoc LAUDO_MEDICO (js ''Paciente com surdez''),
         mkdoc RELATORIO_ESPECIALISTA (js ''Sem outras observacoes'')]) = 8 / 10
   \<and> clinicalEvidence (evaluatePCDEligibility toLowerCaseLatin1
        [mkdoc LAUDO_MEDICO (js ''Paciente com surdez''),
         mkdoc RELATORIO_ESPECIALISTA (js ''Sem outras observacoes'')]) = []
   \<and> \<not> requiresPhysicalEvaluation (evaluatePCDEligibility toLowerCaseLatin1
        [mkdoc LAUDO_MEDICO (js ''Paciente com surdez''),
         mkdoc RELATORIO_ESPECIALISTA (js ''Sem outras observacoes'')])"
proof -
  have "confidence (evaluatePCDEligibility lower docs) \<noteq> 6 / 10"
  proof (cases "analyzeDocs lower initial_scan docs")
    case (Inl e)
    then show ?thesis
      by (simp add: evaluate_degraded degradedResult_def)
  next
    case (Inr st)
    from analyzeDocs_finding_with_type [OF Inr initial_scan_finding_with_type]
    have "st_deficiencyType st = None \<or> st_functionalLimitations st \<noteq> []"
      by (simp add: finding_with_type_def)
    moreover from evaluate_fields(1) [OF Inr]
    have "confidence (evaluatePCDEligibility lower docs) =
            fst (snd (determineOutcome (missingDocs docs) (st_deficiencyType st)
             (st_functionalLimitations st) (length docs)))"
      by (metis fst_conv snd_conv)
    ultimately show ?thesis
      by (auto simp add: determineOutcome_def)
  qed
  then show ?thesis
    by (simp add: evaluate_run)
qed

text \<open>
  Claim C2 as stated: with no documents the outcome is \<open>NAO\<close> with confidence 0.7. It
  fails: with no documents both required documents are missing, and the first row of the
  table applies.
\<close>

theorem zero_documents_rejected_counterexample:
  "\<not> (outcome (evaluatePCDEligibility toLowerCaseLatin1 []) = NAO
       \<and> confidence (evaluatePCDEligibility toLowerCaseLatin1 []) = 7 / 10
       \<and> clinicalEvidence (evaluatePCDEligibility toLowerCaseLatin1 []) = []
       \<and> functionalLimitations (evaluatePCDEligibility toLowerCaseLatin1 []) = [])"
  by (simp add: evaluate_run)

text \<open>
  Claim C2, amended. With no documents the assessment has outcome \<open>TALVEZ\<close> with
  confidence 0.3, the two required documents are listed as missing, and the
  clinical-evidence and functional-limitation lists are empty.
\<close>

theorem zero_documents_indeterminate:
  "outcome (evaluatePCDEligibility lower []) = TALVEZ
   \<and> confidence (evaluatePCDEligibility lower []) = 3 / 10
   \<and> clinicalEvidence (evaluatePCDEligibility lower []) = []
   \<and> functionalLimitations (evaluatePCDEligibility lower []) = []
   \<and> missingDocumentation (evaluatePCDEligibility lower []) =
        [js ''Laudo m'' @ [0xE9] @ js ''dico atualizado (menos de 1 ano)'',
         js ''Relat'' @ [0xF3] @ js ''rio de m'' @ [0xE9] @ js ''dico especialista na ''
         @ [0xE1] @ js ''rea da defici'' @ [0xEA] @ js ''ncia'']"
  by (simp add: evaluatePCDEligibility_def evaluateBody_def Let_def initial_scan_def
      missingDocs_def determineOutcome_def)




text \<open>
  Claim C10. The type that \<open>evaluatePCDEligibility\<close> returns is absent or one of
  \<open>FISICA\<close>, \<open>INTELECTUAL\<close>, \<open>AUDITIVA\<close>, \<open>VISUAL\<close>; it is never \<open>MULTIPLA\<close> and never
  \<open>PSICOSSOCIAL\<close>, also for documents that name a psychosocial or a multiple deficiency.
\<close>

theorem evaluation_type_never_multiple_or_psychosocial:
  "deficiencyType (evaluatePCDEligibility lower docs)
     \<in> {None, Some FISICA, Some INTELECTUAL, Some AUDITIVA, Some VISUAL}
   \<and> deficiencyType (evaluatePCDEligibility lower docs) \<noteq> Some MULTIPLA
   \<and> deficiencyType (evaluatePCDEligibility lower docs) \<noteq> Some PSICOSSOCIAL
   \<and> deficiencyType (evaluatePCDEligibility toLowerCaseLatin1
        [mkdoc LAUDO_MEDICO (js ''Defici'' @ [0xEA] @ js ''ncia psicossocial: esquizofrenia''),
         mkdoc RELATORIO_ESPECIALISTA
           (js ''Defici'' @ [0xEA] @ js ''ncia m'' @ [0xFA] @ js ''ltipla'')]) = None"
proof -
  have "deficiencyType (evaluatePCDEligibility lower docs)
     \<in> {None, Some FISICA, Some INTELECTUAL, Some AUDITIVA, Some VISUAL}"
  proof (cases "analyzeDocs lower initial_scan docs")
    case (Inl e)
    then show ?thesis
      by (simp add: evaluate_degraded degradedResult_def)
  next
    case (Inr st)
    from analyzeDocs_base_typed [OF Inr initial_scan_base_typed] show ?thesis
      by (simp add: evaluate_fields(2) [OF Inr] base_typed_def)
  qed
  moreover have "deficiencyType (evaluatePCDEligibility toLowerCaseLatin1
        [mkdoc LAUDO_MEDICO (js ''Defici'' @ [0xEA] @ js ''ncia psicossocial: esquizofrenia''),
         mkdoc RELATORIO_ESPECIALISTA
           (js ''Defici'' @ [0xEA] @ js ''ncia m'' @ [0xFA] @ js ''ltipla'')]) = None"
    by (simp add: evaluate_run)
  ultimately show ?thesis
    by auto
qed

section \<open>Properties of the document analysis\<close>

subsection \<open>The completeness score and the quality tier\<close>

lemma calcCompletenessScore_bounds:
  "0 \<le> calcCompletenessScore a b c d e f g h \<and> calcCompletenessScore a b c d e f g h \<le> 100"
  by (simp add: calcCompletenessScore_def)

lemma analyze_score_and_quality:
  "0 \<le> completenessScore (analyzePCDDocumentFromPDF lower expected extraction)
   \<and> completenessScore (analyzePCDDocumentFromPDF lower expected extraction) \<le> 100
   \<and> documentQuality (analyzePCDDocumentFromPDF lower expected extraction)
       = qualityOf (completenessScore (analyzePCDDocumentFromPDF lower expected extraction))"
  by (cases extraction)
     (simp_all add: analyzePCDDocumentFromPDF_def analysisError_def qualityOf_def
        analyzeContent_def Let_def calcCompletenessScore_bounds)

text \<open>
  Claim C4. For every combination of the eight evidence flags the score is the sum of
  the weights of the flags that hold (medical report 20, specialist report 20, CID 10,
  signature 10, professional id 10, type identified 15, CIF 5, complementary exams 10),
  it lies between 0 and 100, and the tier of a score is \<open>EXCELENTE\<close> exactly from 85,
  \<open>BOA\<close> exactly from 70 to 84, \<open>REGULAR\<close> exactly from 50 to 69 and \<open>INSUFICIENTE\<close>
  exactly below 50. The result of the tool carries such a score and its tier, on the
  error path too.
\<close>

theorem completeness_score_range_and_tier:
  "(let s = calcCompletenessScore medicalReport specialistReport cid signature professionalId
              typeIdentified cifCriteria exams
    in 0 \<le> s \<and> s \<le> 100
       \<and> s = (if medicalReport then 20 else 0) + (if specialistReport then 20 else 0)
             + (if cid then 10 else 0) + (if signature then 10 else 0)
             + (if professionalId then 10 else 0) + (if typeIdentified then 15 else 0)
             + (if cifCriteria then 5 else 0) + (if exams then 10 else 0))
   \<and> (qualityOf score = EXCELENTE) = (85 \<le> score)
   \<and> (qualityOf score = BOA) = (70 \<le> score \<and> score < 85)
   \<and> (qualityOf score = REGULAR) = (50 \<le> score \<and> score < 70)
   \<and> (qualityOf score = INSUFICIENTE) = (score < 50)
   \<and> 0 \<le> completenessScore (analyzePCDDocumentFromPDF lower expected extraction)
   \<and> completenessScore (analyzePCDDocumentFromPDF lower expected extraction) \<le> 100
   \<and> documentQuality (analyzePCDDocumentFromPDF lower expected extraction)
       = qualityOf (completenessScore (analyzePCDDocumentFromPDF lower expected extraction))"
proof -
  have "let s = calcCompletenessScore medicalReport specialistReport cid signature professionalId
              typeIdentified cifCriteria exams
    in 0 \<le> s \<and> s \<le> 100
       \<and> s = (if medicalReport then 20 else 0) + (if specialistReport then 20 else 0)
             + (if cid then 10 else 0) + (if signature then 10 else 0)
             + (if professionalId then 10 else 0) + (if typeIdentified then 15 else 0)
             + (if cifCriteria then 5 else 0) + (if exams then 10 else 0)"
    by (simp add: calcCompletenessScore_def)
  moreover have "(qualityOf score = EXCELENTE) = (85 \<le> score)"
    "(qualityOf score = BOA) = (70 \<le> score \<and> score < 85)"
    "(qualityOf score = REGULAR) = (50 \<le> score \<and> score < 70)"
    "(qualityOf score = INSUFICIENTE) = (score < 50)"
    by (auto simp add: qualityOf_def)
  ultimately show ?thesis
    using analyze_score_and_quality [of lower expected extraction] by blast
qed

text \<open>
  Claim C9. Whatever the other seven flags are, the score with a flag set is at least the
  score with that flag unset.
\<close>

theorem completeness_score_monotone:
  "calcCompletenessScore False b c d e f g h \<le> calcCompletenessScore True b c d e f g h
   \<and> calcCompletenessScore a False c d e f g h \<le> calcCompletenessScore a True c d e f g h
   \<and> calcCompletenessScore a b False d e f g h \<le> calcCompletenessScore a b True d e f g h
   \<and> calcCompletenessScore a b c False e f g h \<le> calcCompletenessScore a b c True e f g h
   \<and> calcCompletenessScore a b c d False f g h \<le> calcCompletenessScore a b c d True f g h
   \<and> calcCompletenessScore a b c d e False g h \<le> calcCompletenessScore a b c d e True g h
   \<and> calcCompletenessScore a b c d e f False h \<le> calcCompletenessScore a b c d e f True h
   \<and> calcCompletenessScore a b c d e f g False \<le> calcCompletenessScore a b c d e f g True"
  by (simp add: calcCompletenessScore_def)

subsection \<open>The classifier\<close>

lemmas rule_defs = ruleFISICA_def ruleINTELECTUAL_def ruleAUDITIVA_def ruleVISUAL_def
  rulePSICOSSOCIAL_def initial_classification_def

lemmas match_defs = matchesFISICA_def matchesINTELECTUAL_def matchesAUDITIVA_def
  matchesVISUAL_def matchesPSICOSSOCIAL_def

lemmas classify_run = classify_def applyRules_def rule_defs match_defs foundDeficiencies_def
  deficiencyKeywords_def matchedRules_def keywordTypes_def Let_def js_def

text \<open>The five rules leave the last matching type, and accumulate what each rule pushes.\<close>

lemma applyRules_detected: "cl_detected (applyRules content) = lastMatch content"
  by (simp add: applyRules_def rule_defs lastMatch_def matchedRules_def)

lemma applyRules_qualifications:
  "cl_issuerQualifications (applyRules content) = concat (map qualificationsOf (matchedRules content))"
  by (simp add: applyRules_def rule_defs matchedRules_def qualificationsOf_def)

lemma applyRules_gaps:
  "cl_missingDocuments (applyRules content) = concat (map (gapsOf content) (matchedRules content))"
  by (simp add: applyRules_def rule_defs matchedRules_def gapsOf_def)

lemma classify_fields:
  "cl_issuerQualifications (classify content) = cl_issuerQualifications (applyRules content)"
  "cl_missingDocuments (classify content) = cl_missingDocuments (applyRules content)"
  "cl_detected (classify content) =
     (if length (foundDeficiencies content) > 1 then Detected MULTIPLA
      else cl_detected (applyRules content))"
  by (simp_all add: classify_def Let_def)

lemma keywordTypes_le_found:
  "length (keywordTypes content) \<le> length (foundDeficiencies content)"
  by (simp add: keywordTypes_def foundDeficiencies_def deficiencyKeywords_def)

lemma last_of_rev: "rev xs = t # ts \<Longrightarrow> last xs = t"
  by (metis last_rev list.sel(1) rev_rev_ident)

text \<open>The tool analyses the lower-cased text when the text is not blank.\<close>

lemma analyze_nonblank:
  "trim (extractedText er) \<noteq> [] \<Longrightarrow>
   analyzePCDDocumentFromPDF lower expected (Inr er) =
     analyzeContent expected er (lower (extractedText er))"
  by (auto simp add: analyzePCDDocumentFromPDF_def trim_def)

lemma analyze_blank:
  "trim (extractedText er) = [] \<Longrightarrow>
   analyzePCDDocumentFromPDF lower expected (Inr er) =
     analysisError (js ''Nenhum texto pode ser extraido do PDF'')"
  by (simp add: analyzePCDDocumentFromPDF_def)

lemma analyze_detected:
  "trim (extractedText er) \<noteq> [] \<Longrightarrow>
   detectedDeficiencyType (analyzePCDDocumentFromPDF lower expected (Inr er)) =
     cl_detected (classify (lower (extractedText er)))"
  by (simp add: analyze_nonblank analyzeContent_def Let_def)

text \<open>
  Claim C3 as stated: the detected type is \<open>MULTIPLA\<close> exactly when at least two of the
  five rules match, and with exactly one matching rule its type stands. It fails in both
  directions. The text \<open>Surdez e cegueira\<close> matches the rules of \<open>AUDITIVA\<close> and of
  \<open>VISUAL\<close> and is classified \<open>VISUAL\<close>. The text \<open>Exame visual. Deficiencia fisica.\<close>
  matches the rule of \<open>FISICA\<close> only and is classified \<open>MULTIPLA\<close>.
\<close>

theorem multiple_iff_two_rules_counterexample:
  "length (matchedRules (toLowerCaseLatin1 (js ''Surdez e cegueira''))) = 2
   \<and> detectedDeficiencyType
        (analyzePCDDocumentFromPDF toLowerCaseLatin1 None
           (Inr \<lparr>extractedText = js ''Surdez e cegueira'', pagesCount = 1\<rparr>))
       = Detected VISUAL
   \<and> matchedRules (toLowerCaseLatin1 (js ''Exame visual. Deficiencia fisica.'')) = [FISICA]
   \<and> detectedDeficiencyType
        (analyzePCDDocumentFromPDF toLowerCaseLatin1 None
           (Inr \<lparr>extractedText = js ''Exame visual. Deficiencia fisica.'', pagesCount = 1\<rparr>))
       = Detected MULTIPLA"
  by (simp add: analyzePCDDocumentFromPDF_def analyzeContent_def trim_def isWhiteSpace_def
      toLowerCaseLatin1_def classify_run)

text \<open>
  Claim C3, amended. The check for multiple deficiencies counts keywords, not rules. For
  every text: when the keywords \<open>fisica\<close> (in either spelling), \<open>auditiva\<close>, \<open>visual\<close>,
  \<open>intelectual\<close>, \<open>psicossocial\<close> found in it name at least two base types, the detected
  type is \<open>MULTIPLA\<close>; when at most one of the six keywords occurs, the detected type is
  \<open>NAO_IDENTIFICADA\<close> if no rule matches, and the type of the last matching rule (the
  single one, if exactly one matches) otherwise.
\<close>

theorem multiple_by_keywords:
  "(2 \<le> length (keywordTypes content) \<longrightarrow> cl_detected (classify content) = Detected MULTIPLA)
   \<and> (length (foundDeficiencies content) \<le> 1 \<and> matchedRules content = []
        \<longrightarrow> cl_detected (classify content) = NAO_IDENTIFICADA)
   \<and> (length (foundDeficiencies content) \<le> 1 \<and> matchedRules content \<noteq> []
        \<longrightarrow> cl_detected (classify content) = Detected (last (matchedRules content)))"
proof (intro conjI impI)
  assume "2 \<le> length (keywordTypes content)"
  with keywordTypes_le_found [of content] have "1 < length (foundDeficiencies content)"
    by simp
  then show "cl_detected (classify content) = Detected MULTIPLA"
    by (simp add: classify_fields)
next
  assume "length (foundDeficiencies content) \<le> 1 \<and> matchedRules content = []"
  then show "cl_detected (classify content) = NAO_IDENTIFICADA"
    by (simp add: classify_fields applyRules_detected lastMatch_def)
next
  assume a: "length (foundDeficiencies content) \<le> 1 \<and> matchedRules content \<noteq> []"
  then obtain t ts where r: "rev (matchedRules content) = t # ts"
    by (cases "rev (matchedRules content)") simp_all
  with a last_of_rev [OF r]
  show "cl_detected (classify content) = Detected (last (matchedRules content))"
    by (simp add: classify_fields applyRules_detected lastMatch_def)
qed

theorem multiple_by_keywords_witness:
  "2 \<le> length (keywordTypes (js ''deficiencia fisica e visual''))
   \<and> cl_detected (classify (js ''deficiencia fisica e visual'')) = Detected MULTIPLA
   \<and> length (foundDeficiencies (js ''exame de rotina'')) \<le> 1
   \<and> matchedRules (js ''exame de rotina'') = []
   \<and> cl_detected (classify (js ''exame de rotina'')) = NAO_IDENTIFICADA
   \<and> length (foundDeficiencies (js ''surdez e cegueira'')) \<le> 1
   \<and> matchedRules (js ''surdez e cegueira'') \<noteq> []
   \<and> cl_detected (classify (js ''surdez e cegueira''))
       = Detected (last (matchedRules (js ''surdez e cegueira'')))"
proof -
  have h1: "2 \<le> length (keywordTypes (js ''deficiencia fisica e visual''))"
    by (simp add: keywordTypes_def js_def)
  have h2: "length (foundDeficiencies (js ''exame de rotina'')) \<le> 1
            \<and> matchedRules (js ''exame de rotina'') = []"
    by (simp add: foundDeficiencies_def deficiencyKeywords_def matchedRules_def match_defs js_def)
  have h3: "length (foundDeficiencies (js ''surdez e cegueira'')) \<le> 1
            \<and> matchedRules (js ''surdez e cegueira'') \<noteq> []"
    by (simp add: foundDeficiencies_def deficiencyKeywords_def matchedRules_def match_defs js_def)
  from h1 h2 h3
    multiple_by_keywords [of "js ''deficiencia fisica e visual''"]
    multiple_by_keywords [of "js ''exame de rotina''"]
    multiple_by_keywords [of "js ''surdez e cegueira''"]
  show ?thesis by blast
qed

text \<open>
  Claim C7 as stated: when two or more rules match, the returned qualifications and
  type-specific gaps are those of the last matching rule only. It fails: for
  \<open>Surdez e cegueira\<close> the last matching rule is \<open>VISUAL\<close>, and the result holds the
  qualifications and the exam gap of \<open>AUDITIVA\<close> as well.
\<close>

theorem last_match_only_counterexample:
  "matchedRules (toLowerCaseLatin1 (js ''Surdez e cegueira'')) = [AUDITIVA, VISUAL]
   \<and> issuerQualifications (medicalDocuments
        (analyzePCDDocumentFromPDF toLowerCaseLatin1 None
           (Inr \<lparr>extractedText = js ''Surdez e cegueira'', pagesCount = 1\<rparr>)))
       = [js ''Otorrinolaringologia'', js ''Fonoaudiologia'', js ''Oftalmologia'']
   \<and> take 2 (missingDocuments
        (analyzePCDDocumentFromPDF toLowerCaseLatin1 None
           (Inr \<lparr>extractedText = js ''Surdez e cegueira'', pagesCount = 1\<rparr>)))
       = [js ''Audiometria ou BERA (obrigatorio para deficiencia auditiva)'',
          js ''Exame de acuidade visual e campo visual (obrigatorio para deficiencia visual)'']"
  by (simp add: analyzePCDDocumentFromPDF_def analyzeContent_def trim_def isWhiteSpace_def
      toLowerCaseLatin1_def classify_run)

text \<open>
  Claim C7, amended. When a text matches two or more rules, the five rules leave the
  type of the last matching rule as the detected type (which the check for multiple
  deficiencies keeps or replaces by \<open>MULTIPLA\<close>), the returned qualifications are those of
  every matching rule, in rule order, and the type-specific gaps are those of every
  matching rule, in rule order.
\<close>

theorem rules_accumulate:
  assumes "2 \<le> length (matchedRules content)"
  shows "cl_detected (applyRules content) = Detected (last (matchedRules content))
   \<and> (cl_detected (classify content) = Detected (last (matchedRules content))
      \<or> cl_detected (classify content) = Detected MULTIPLA)
   \<and> cl_issuerQualifications (classify content)
       = concat (map qualificationsOf (matchedRules content))
   \<and> cl_missingDocuments (classify content)
       = concat (map (gapsOf content) (matchedRules content))"
proof -
  from assms obtain t ts where r: "rev (matchedRules content) = t # ts"
    by (cases "rev (matchedRules content)") simp_all
  with last_of_rev [OF r]
  have d: "cl_detected (applyRules content) = Detected (last (matchedRules content))"
    by (simp add: applyRules_detected lastMatch_def)
  show ?thesis
    by (simp add: d classify_fields applyRules_qualifications applyRules_gaps)
qed

theorem rules_accumulate_witness:
  "2 \<le> length (matchedRules (js ''surdez e cegueira''))
   \<and> cl_detected (applyRules (js ''surdez e cegueira'')) = Detected VISUAL
   \<and> cl_issuerQualifications (classify (js ''surdez e cegueira''))
       = [js ''Otorrinolaringologia'', js ''Fonoaudiologia'', js ''Oftalmologia'']
   \<and> cl_missingDocuments (classify (js ''surdez e cegueira''))
       = [js ''Audiometria ou BERA (obrigatorio para deficiencia auditiva)'',
          js ''Exame de acuidade visual e campo visual (obrigatorio para deficiencia visual)'']"
proof -
  have m: "matchedRules (js ''surdez e cegueira'') = [AUDITIVA, VISUAL]"
    by (simp add: matchedRules_def match_defs js_def)
  have g: "gapsOf (js ''surdez e cegueira'') AUDITIVA
             = [js ''Audiometria ou BERA (obrigatorio para deficiencia auditiva)'']"
    "gapsOf (js ''surdez e cegueira'') VISUAL
             = [js ''Exame de acuidade visual e campo visual (obrigatorio para deficiencia visual)'']"
    by (simp_all add: gapsOf_def js_def)
  have h: "2 \<le> length (matchedRules (js ''surdez e cegueira''))"
    by (simp add: m)
  from rules_accumulate [OF h] show ?thesis
    by (simp add: m g qualificationsOf_def)
qed

subsection \<open>Missing documents and urgency flags\<close>

lemma cid_flag_has_cid:
  "js_includes (js ''Falta diagnostico com CID - fundamental para avaliacao'') (js ''CID'')"
  by (simp add: js_def)

lemma error_flag_no_cid:
  "\<not> js_includes (js ''Sistema indisponivel ou PDF invalido - analise manual urgente'')
       (js ''CID'')"
  by (simp add: js_def)

lemma type_flag_no_cid:
  "\<not> js_includes (js ''Tipo de deficiencia nao identificado no documento'') (js ''CID'')"
  by (simp add: js_def)

text \<open>
  The flag of a type that differs from the expected one names two types; it is raised for
  an expected type other than \<open>DESCONHECIDA\<close> only, and then holds no \<open>CID\<close>.
\<close>

lemma discrepancy_flag_no_cid:
  assumes "x \<noteq> DESCONHECIDA" and "d \<noteq> NAO_IDENTIFICADA"
  shows "\<not> js_includes (js ''Tipo de deficiencia detectada ('' @ detectedName d
        @ js '') difere do esperado ('' @ expectedName x @ js '')'') (js ''CID'')"
proof -
  from assms obtain t t' where tt: "d = Detected t" "x = Expected t'"
    by (cases d; cases x) simp_all
  have "\<not> js_includes (js ''Tipo de deficiencia detectada ('' @ deficiencyTypeName t
        @ js '') difere do esperado ('' @ deficiencyTypeName t' @ js '')'') (js ''CID'')"
    by (cases t; cases t') (simp_all add: deficiencyTypeName_def js_def)
  then show ?thesis
    by (simp add: tt detectedName_def expectedName_def)
qed

text \<open>
  Claim C8 as stated, for every input text. It fails for a blank text, which holds no
  medical-report evidence and no CID evidence: the tool throws before the analysis and
  returns its error result, whose missing-document list is the error entry alone and whose
  urgency flags hold no CID flag.
\<close>

theorem blank_text_counterexample:
  "\<not> hasCurrentMedicalReport (medicalDocuments (analyzePCDDocumentFromPDF toLowerCaseLatin1 None
          (Inr \<lparr>extractedText = js ''  '', pagesCount = 1\<rparr>)))
   \<and> \<not> hasCIDDiagnosis (medicalDocuments (analyzePCDDocumentFromPDF toLowerCaseLatin1 None
          (Inr \<lparr>extractedText = js ''  '', pagesCount = 1\<rparr>)))
   \<and> missingDocuments (analyzePCDDocumentFromPDF toLowerCaseLatin1 None
          (Inr \<lparr>extractedText = js ''  '', pagesCount = 1\<rparr>))
      = [js ''Erro na analise: Nenhum texto pode ser extraido do PDF'']
   \<and> js ''Laudo medico atualizado (obrigatorio)''
        \<notin> set (missingDocuments (analyzePCDDocumentFromPDF toLowerCaseLatin1 None
          (Inr \<lparr>extractedText = js ''  '', pagesCount = 1\<rparr>)))
   \<and> urgencyFlags (analyzePCDDocumentFromPDF toLowerCaseLatin1 None
          (Inr \<lparr>extractedText = js ''  '', pagesCount = 1\<rparr>))
      = [js ''Sistema indisponivel ou PDF invalido - analise manual urgente'']
   \<and> filter (\<lambda>flag. js_includes flag (js ''CID''))
        (urgencyFlags (analyzePCDDocumentFromPDF toLowerCaseLatin1 None
          (Inr \<lparr>extractedText = js ''  '', pagesCount = 1\<rparr>))) = []"
  by (simp add: analyzePCDDocumentFromPDF_def analysisError_def trim_def isWhiteSpace_def js_def)

text \<open>
  Claim C8, amended. For every text that is not blank and in which the analysis finds no
  medical report and no CID, the missing-document list of the result holds the
  medical-report entry and the CID entry, and exactly one urgency flag mentions the CID:
  the flag of the missing CID diagnosis. For every blank text the tool returns its error
  result, whose missing-document list is the error entry alone and whose urgency flags
  hold no CID flag.
\<close>

theorem missing_report_and_cid:
  "(trim (extractedText er) \<noteq> []
      \<and> \<not> hasCurrentMedicalReport
            (medicalDocuments (analyzePCDDocumentFromPDF lower expected (Inr er)))
      \<and> \<not> hasCIDDiagnosis
            (medicalDocuments (analyzePCDDocumentFromPDF lower expected (Inr er)))
     \<longrightarrow> js ''Laudo medico atualizado (obrigatorio)''
           \<in> set (missingDocuments (analyzePCDDocumentFromPDF lower expected (Inr er)))
       \<and> js ''Diagnostico com codigo CID''
           \<in> set (missingDocuments (analyzePCDDocumentFromPDF lower expected (Inr er)))
       \<and> filter (\<lambda>flag. js_includes flag (js ''CID''))
            (urgencyFlags (analyzePCDDocumentFromPDF lower expected (Inr er)))
          = [js ''Falta diagnostico com CID - fundamental para avaliacao''])
   \<and> (trim (extractedText er) = []
     \<longrightarrow> analyzePCDDocumentFromPDF lower expected (Inr er)
           = analysisError (js ''Nenhum texto pode ser extraido do PDF'')
       \<and> missingDocuments (analyzePCDDocumentFromPDF lower expected (Inr er))
           = [js ''Erro na analise: '' @ js ''Nenhum texto pode ser extraido do PDF'']
       \<and> filter (\<lambda>flag. js_includes flag (js ''CID''))
            (urgencyFlags (analyzePCDDocumentFromPDF lower expected (Inr er))) = [])"
proof (intro conjI impI)
  assume a: "trim (extractedText er) \<noteq> []
      \<and> \<not> hasCurrentMedicalReport
            (medicalDocuments (analyzePCDDocumentFromPDF lower expected (Inr er)))
      \<and> \<not> hasCIDDiagnosis
            (medicalDocuments (analyzePCDDocumentFromPDF lower expected (Inr er)))"
  let ?r = "analyzeContent expected er (lower (extractedText er))"
  from a have r: "analyzePCDDocumentFromPDF lower expected (Inr er) = ?r"
    by (simp add: analyze_nonblank)
  from a have h: "\<not> hasCurrentMedicalReport (medicalDocuments ?r)"
    "\<not> hasCIDDiagnosis (medicalDocuments ?r)"
    by (simp_all add: r)
  have m1: "js ''Laudo medico atualizado (obrigatorio)'' \<in> set (missingDocuments ?r)"
    using h(1) by (simp add: analyzeContent_def Let_def)
  have m2: "js ''Diagnostico com codigo CID'' \<in> set (missingDocuments ?r)"
    using h(2) by (simp add: analyzeContent_def Let_def)
  have m3: "filter (\<lambda>flag. js_includes flag (js ''CID'')) (urgencyFlags ?r)
          = [js ''Falta diagnostico com CID - fundamental para avaliacao'']"
    using h(2)
    by (simp add: analyzeContent_def Let_def cid_flag_has_cid type_flag_no_cid
        discrepancy_flag_no_cid split: option.splits)
  show "js ''Laudo medico atualizado (obrigatorio)''
           \<in> set (missingDocuments (analyzePCDDocumentFromPDF lower expected (Inr er)))"
    using m1 by (simp only: r)
  show "js ''Diagnostico com codigo CID''
           \<in> set (missingDocuments (analyzePCDDocumentFromPDF lower expected (Inr er)))"
    using m2 by (simp only: r)
  show "filter (\<lambda>flag. js_includes flag (js ''CID''))
            (urgencyFlags (analyzePCDDocumentFromPDF lower expected (Inr er)))
          = [js ''Falta diagnostico com CID - fundamental para avaliacao'']"
    using m3 by (simp only: r)
next
  assume b: "trim (extractedText er) = []"
  then have e: "analyzePCDDocumentFromPDF lower expected (Inr er)
           = analysisError (js ''Nenhum texto pode ser extraido do PDF'')"
    by (rule analyze_blank)
  show "analyzePCDDocumentFromPDF lower expected (Inr er)
           = analysisError (js ''Nenhum texto pode ser extraido do PDF'')"
    by (rule e)
  show "missingDocuments (analyzePCDDocumentFromPDF lower expected (Inr er))
           = [js ''Erro na analise: '' @ js ''Nenhum texto pode ser extraido do PDF'']"
    by (simp add: e analysisError_def)
  show "filter (\<lambda>flag. js_includes flag (js ''CID''))
            (urgencyFlags (analyzePCDDocumentFromPDF lower expected (Inr er))) = []"
    by (simp add: e analysisError_def error_flag_no_cid)
qed

theorem missing_report_and_cid_witness:
  "trim (js ''Paciente com surdez'') \<noteq> []
   \<and> \<not> hasCurrentMedicalReport (medicalDocuments (analyzePCDDocumentFromPDF toLowerCaseLatin1
          (Some (Expected VISUAL))
          (Inr \<lparr>extractedText = js ''Paciente com surdez'', pagesCount = 1\<rparr>)))
   \<and> \<not> hasCIDDiagnosis (medicalDocuments (analyzePCDDocumentFromPDF toLowerCaseLatin1
          (Some (Expected VISUAL))
          (Inr \<lparr>extractedText = js ''Paciente com surdez'', pagesCount = 1\<rparr>)))
   \<and> js ''Laudo medico atualizado (obrigatorio)''
        \<in> set (missingDocuments (analyzePCDDocumentFromPDF toLowerCaseLatin1
          (Some (Expected VISUAL))
          (Inr \<lparr>extractedText = js ''Paciente com surdez'', pagesCount = 1\<rparr>)))
   \<and> js ''Diagnostico com codigo CID''
        \<in> set (missingDocuments (analyzePCDDocumentFromPDF toLowerCaseLatin1
          (Some (Expected VISUAL))
          (Inr \<lparr>extractedText = js ''Paciente com surdez'', pagesCount = 1\<rparr>)))
   \<and> filter (\<lambda>flag. js_includes flag (js ''CID''))
        (urgencyFlags (analyzePCDDocumentFromPDF toLowerCaseLatin1
          (Some (Expected VISUAL))
          (Inr \<lparr>extractedText = js ''Paciente com surdez'', pagesCount = 1\<rparr>)))
      = [js ''Falta diagnostico com CID - fundamental para avaliacao'']
   \<and> trim [0x20, 0xA, 0x9] = []
   \<and> missingDocuments (analyzePCDDocumentFromPDF toLowerCaseLatin1 None
          (Inr \<lparr>extractedText = [0x20, 0xA, 0x9], pagesCount = 3\<rparr>))
      = [js ''Erro na analise: '' @ js ''Nenhum texto pode ser extraido do PDF'']
   \<and> filter (\<lambda>flag. js_includes flag (js ''CID''))
        (urgencyFlags (analyzePCDDocumentFromPDF toLowerCaseLatin1 None
          (Inr \<lparr>extractedText = [0x20, 0xA, 0x9], pagesCount = 3\<rparr>))) = []"
proof -
  let ?er = "\<lparr>extractedText = js ''Paciente com surdez'', pagesCount = 1\<rparr>"
  let ?blank = "\<lparr>extractedText = [0x20, 0xA, 0x9], pagesCount = 3\<rparr>"
  have h1: "trim (extractedText ?er) \<noteq> []"
    by (simp add: trim_def isWhiteSpace_def js_def)
  have h2: "\<not> hasCurrentMedicalReport (medicalDocuments
              (analyzePCDDocumentFromPDF toLowerCaseLatin1 (Some (Expected VISUAL)) (Inr ?er)))"
    unfolding analyze_nonblank [OF h1]
    by (simp add: analyzeContent_def Let_def toLowerCaseLatin1_def js_def)
  have h3: "\<not> hasCIDDiagnosis (medicalDocuments
              (analyzePCDDocumentFromPDF toLowerCaseLatin1 (Some (Expected VISUAL)) (Inr ?er)))"
    unfolding analyze_nonblank [OF h1]
    by (simp add: analyzeContent_def Let_def toLowerCaseLatin1_def js_def matchCid_def)
  have h4: "trim (extractedText ?blank) = []"
    by (simp add: trim_def isWhiteSpace_def)
  have t: "trim (js ''Paciente com surdez'') \<noteq> []" "trim [0x20, 0xA, 0x9] = []"
    using h1 h4 by simp_all
  from h1 h2 h3
    missing_report_and_cid [of ?er toLowerCaseLatin1 "Some (Expected VISUAL)"]
  have c1: "js ''Laudo medico atualizado (obrigatorio)''
        \<in> set (missingDocuments (analyzePCDDocumentFromPDF toLowerCaseLatin1
          (Some (Expected VISUAL)) (Inr ?er)))
   \<and> js ''Diagnostico com codigo CID''
        \<in> set (missingDocuments (analyzePCDDocumentFromPDF toLowerCaseLatin1
          (Some (Expected VISUAL)) (Inr ?er)))
   \<and> filter (\<lambda>flag. js_includes flag (js ''CID''))
        (urgencyFlags (analyzePCDDocumentFromPDF toLowerCaseLatin1
          (Some (Expected VISUAL)) (Inr ?er)))
      = [js ''Falta diagnostico com CID - fundamental para avaliacao'']"
    by blast
  from h4 missing_report_and_cid [of ?blank toLowerCaseLatin1 None]
  have c2: "missingDocuments (analyzePCDDocumentFromPDF toLowerCaseLatin1 None (Inr ?blank))
      = [js ''Erro na analise: '' @ js ''Nenhum texto pode ser extraido do PDF'']
   \<and> filter (\<lambda>flag. js_includes flag (js ''CID''))
        (urgencyFlags (analyzePCDDocumentFromPDF toLowerCaseLatin1 None (Inr ?blank))) = []"
    by blast
  from t h2 h3 c1 c2 show ?thesis
    by blast
qed

section \<open>Properties of the report\<close>

lemma join_not_Nil: "ls \<noteq> [] \<Longrightarrow> hd ls \<noteq> [] \<Longrightarrow> join sep ls \<noteq> []"
  by (induction sep ls rule: join.induct) simp_all

lemma hd_join: "ls \<noteq> [] \<Longrightarrow> hd ls \<noteq> [] \<Longrightarrow> hd (join sep ls) = hd (hd ls)"
  by (induction sep ls rule: join.induct) simp_all

lemma last_join: "ls \<noteq> [] \<Longrightarrow> last ls \<noteq> [] \<Longrightarrow> last (join sep ls) = last (last ls)"
proof (induction sep ls rule: join.induct)
  case (3 sep x y ys)
  then have "join sep (y # ys) \<noteq> []"
    by (induction sep "y # ys" arbitrary: y ys rule: join.induct) auto
  with 3 show ?case by simp
qed simp_all

text \<open>Trimming removes the line break before and after a text that starts and ends in print.\<close>

lemma trim_wrapped:
  assumes "s \<noteq> []" and "\<not> isWhiteSpace (hd s)" and "\<not> isWhiteSpace (last s)"
  shows "trim ([0xA] @ s @ [0xA]) = s"
proof -
  have nl: "isWhiteSpace 0xA"
    by (simp add: isWhiteSpace_def)
  from assms(1,2) have a: "dropWhile isWhiteSpace ([0xA] @ s @ [0xA]) = s @ [0xA]"
    by (cases s) (simp_all add: nl)
  from assms(1,3) have b: "dropWhile isWhiteSpace (rev (s @ [0xA])) = rev s"
    by (cases s rule: rev_cases) (simp_all add: nl)
  show ?thesis
    by (simp only: trim_def a b rev_rev_ident)
qed

lemma laudoLines_length: "length (laudoLines lower clock d) = 75"
  by (simp add: laudoLines_def Let_def)

lemma laudoLines_hd:
  "hd (laudoLines lower clock d) = js ''LAUDO CARACTERIZADOR DE PESSOA COM DEFICIENCIA''"
  by (simp add: laudoLines_def Let_def)

lemma laudoLines_last:
  "last (laudoLines lower clock d)
     = js ''com a legislacao brasileira vigente sobre pessoas com deficiencia.''"
  by (simp add: laudoLines_def Let_def)

text \<open>The rendered document is the template lines joined by line breaks.\<close>

lemma fullDocument_join:
  "fullDocument lower clock d = join [0xA] (laudoLines lower clock d)"
proof -
  let ?ls = "laudoLines lower clock d"
  have ne: "?ls \<noteq> []"
    using laudoLines_length [of lower clock d] by auto
  have h: "hd ?ls \<noteq> []" "hd (hd ?ls) = 0x4C"
    by (simp_all add: laudoLines_hd js_def)
  have l: "last ?ls \<noteq> []" "last (last ?ls) = 0x2E"
    by (simp_all add: laudoLines_last js_def)
  have "trim ([0xA] @ join [0xA] ?ls @ [0xA]) = join [0xA] ?ls"
  proof (rule trim_wrapped)
    show "join [0xA] ?ls \<noteq> []"
      by (rule join_not_Nil [OF ne h(1)])
    show "\<not> isWhiteSpace (hd (join [0xA] ?ls))"
      by (simp add: hd_join [OF ne h(1)] h(2) isWhiteSpace_def)
    show "\<not> isWhiteSpace (last (join [0xA] ?ls))"
      by (simp add: last_join [OF ne l(1)] l(2) isWhiteSpace_def)
  qed
  then show ?thesis
    by (simp add: fullDocument_def)
qed

lemma splitLines_single: "0xA \<notin> set x \<Longrightarrow> splitLines x = [x]"
  by (induction x) simp_all

lemma splitLines_append: "0xA \<notin> set x \<Longrightarrow> splitLines (x @ 0xA # r) = x # splitLines r"
  by (induction x) simp_all

lemma splitLines_join:
  "ls \<noteq> [] \<Longrightarrow> \<forall>l \<in> set ls. 0xA \<notin> set l \<Longrightarrow> splitLines (join [0xA] ls) = ls"
  by (induction "[0xA::nat]" ls rule: join.induct)
     (simp_all add: splitLines_single splitLines_append)

lemma splitLines_fullDocument:
  assumes "\<forall>l \<in> set (laudoLines lower clock d). 0xA \<notin> set l"
  shows "splitLines (fullDocument lower clock d) = laudoLines lower clock d"
proof -
  have ne: "laudoLines lower clock d \<noteq> []"
    using laudoLines_length [of lower clock d] by auto
  show ?thesis
    unfolding fullDocument_join
    by (rule splitLines_join [OF ne assms])
qed

lemmas laudo_run = laudoLines_def Let_def minimalDossier_def exampleClock_def makeLaudoId_def
  optionalLine_def bullets_def deficiencyTypeName_def prognosisName_def severityName_def
  isDigit_def toLowerCaseLatin1_def js_def

lemma minimal_lines_no_break:
  "\<forall>l \<in> set (laudoLines toLowerCaseLatin1 exampleClock minimalDossier). 0xA \<notin> set l"
  by (simp add: laudo_run)

text \<open>
  Claim C5 as stated: the line of an absent optional field is omitted, and the document
  holds no empty line for it. It fails: in the document of a dossier without RG, the line
  after the CPF line is an empty line, and the birth date follows it.
\<close>

theorem absent_rg_counterexample:
  "ci_rg (candidateInfo minimalDossier) = None
   \<and> splitLines (fullDocument toLowerCaseLatin1 exampleClock minimalDossier) ! 10
       = js ''CPF: 123.456.789-00''
   \<and> splitLines (fullDocument toLowerCaseLatin1 exampleClock minimalDossier) ! 11 = []
   \<and> splitLines (fullDocument toLowerCaseLatin1 exampleClock minimalDossier) ! 12
       = js ''Data de Nascimento: 01/02/1990''"
  unfolding splitLines_fullDocument [OF minimal_lines_no_break]
  by (simp add: laudoLines_def Let_def minimalDossier_def optionalLine_def js_def)

text \<open>
  Claim C5, amended. The document is always the 75 lines of the template joined by line
  breaks, whatever optional fields the dossier has; they are the lines of the document
  when no value holds a line break. When an optional field (RG, address, phone, email,
  CIF code, onset date, assistive technologies, other laws) is absent or empty, the
  template line of the field is the empty string: the label and the value are not
  rendered, and an empty line stands in their place.
\<close>

theorem absent_fields_leave_empty_lines:
  "fullDocument lower clock d = join [0xA] (laudoLines lower clock d)
   \<and> length (laudoLines lower clock d) = 75
   \<and> ((\<forall>l \<in> set (laudoLines lower clock d). 0xA \<notin> set l)
        \<longrightarrow> splitLines (fullDocument lower clock d) = laudoLines lower clock d)
   \<and> (ci_rg (candidateInfo d) \<in> {None, Some []} \<longrightarrow> laudoLines lower clock d ! 11 = [])
   \<and> (ci_address (candidateInfo d) \<in> {None, Some []} \<longrightarrow> laudoLines lower clock d ! 13 = [])
   \<and> (ci_phone (candidateInfo d) \<in> {None, Some []} \<longrightarrow> laudoLines lower clock d ! 14 = [])
   \<and> (ci_email (candidateInfo d) \<in> {None, Some []} \<longrightarrow> laudoLines lower clock d ! 15 = [])
   \<and> (mi_cifCode (medicalInfo d) \<in> {None, Some []} \<longrightarrow> laudoLines lower clock d ! 21 = [])
   \<and> (mi_onsetDate (medicalInfo d) \<in> {None, Some []} \<longrightarrow> laudoLines lower clock d ! 22 = [])
   \<and> (fa_assistiveTechnology (functionalAssessment d) = []
        \<longrightarrow> laudoLines lower clock d ! 37 = [])
   \<and> (lb_otherLaws (legalBasis d) \<in> {None, Some []} \<longrightarrow> laudoLines lower clock d ! 55 = [])"
proof -
  have doc: "fullDocument lower clock d = join [0xA] (laudoLines lower clock d)"
    by (rule fullDocument_join)
  have len: "length (laudoLines lower clock d) = 75"
    by (rule laudoLines_length)
  have split: "(\<forall>l \<in> set (laudoLines lower clock d). 0xA \<notin> set l)
        \<longrightarrow> splitLines (fullDocument lower clock d) = laudoLines lower clock d"
    using splitLines_fullDocument [of lower clock d] by blast
  have rg: "ci_rg (candidateInfo d) \<in> {None, Some []} \<longrightarrow> laudoLines lower clock d ! 11 = []"
    by (auto simp add: laudoLines_def Let_def optionalLine_def)
  have address:
    "ci_address (candidateInfo d) \<in> {None, Some []} \<longrightarrow> laudoLines lower clock d ! 13 = []"
    by (auto simp add: laudoLines_def Let_def optionalLine_def)
  have phone:
    "ci_phone (candidateInfo d) \<in> {None, Some []} \<longrightarrow> laudoLines lower clock d ! 14 = []"
    by (auto simp add: laudoLines_def Let_def optionalLine_def)
  have email:
    "ci_email (candidateInfo d) \<in> {None, Some []} \<longrightarrow> laudoLines lower clock d ! 15 = []"
    by (auto simp add: laudoLines_def Let_def optionalLine_def)
  have cifc:
    "mi_cifCode (medicalInfo d) \<in> {None, Some []} \<longrightarrow> laudoLines lower clock d ! 21 = []"
    by (auto simp add: laudoLines_def Let_def optionalLine_def)
  have onset:
    "mi_onsetDate (medicalInfo d) \<in> {None, Some []} \<longrightarrow> laudoLines lower clock d ! 22 = []"
    by (auto simp add: laudoLines_def Let_def optionalLine_def)
  have assist: "fa_assistiveTechnology (functionalAssessment d) = []
        \<longrightarrow> laudoLines lower clock d ! 37 = []"
    by (simp add: laudoLines_def Let_def)
  have laws: "lb_otherLaws (legalBasis d) \<in> {None, Some []}
        \<longrightarrow> laudoLines lower clock d ! 55 = []"
    by (auto simp add: laudoLines_def Let_def)
  from doc len split rg address phone email cifc onset assist laws show ?thesis
    by (intro conjI)
qed

theorem absent_fields_leave_empty_lines_witness:
  "list_all (\<lambda>l. 0xA \<notin> set l) (laudoLines toLowerCaseLatin1 exampleClock minimalDossier)
   \<and> ci_rg (candidateInfo minimalDossier) \<in> {None, Some []}
   \<and> ci_address (candidateInfo minimalDossier) \<in> {None, Some []}
   \<and> ci_phone (candidateInfo minimalDossier) \<in> {None, Some []}
   \<and> ci_email (candidateInfo minimalDossier) \<in> {None, Some []}
   \<and> mi_cifCode (medicalInfo minimalDossier) \<in> {None, Some []}
   \<and> mi_onsetDate (medicalInfo minimalDossier) \<in> {None, Some []}
   \<and> fa_assistiveTechnology (functionalAssessment minimalDossier) = []
   \<and> lb_otherLaws (legalBasis minimalDossier) \<in> {None, Some []}
   \<and> splitLines (fullDocument toLowerCaseLatin1 exampleClock minimalDossier)
       = laudoLines toLowerCaseLatin1 exampleClock minimalDossier
   \<and> map (\<lambda>i. laudoLines toLowerCaseLatin1 exampleClock minimalDossier ! i)
       [11, 13, 14, 15, 21, 22, 37, 55] = [[], [], [], [], [], [], [], []]"
proof -
  have h: "ci_rg (candidateInfo minimalDossier) \<in> {None, Some []}"
    "ci_address (candidateInfo minimalDossier) \<in> {None, Some []}"
    "ci_phone (candidateInfo minimalDossier) \<in> {None, Some []}"
    "ci_email (candidateInfo minimalDossier) \<in> {None, Some []}"
    "mi_cifCode (medicalInfo minimalDossier) \<in> {None, Some []}"
    "mi_onsetDate (medicalInfo minimalDossier) \<in> {None, Some []}"
    "fa_assistiveTechnology (functionalAssessment minimalDossier) = []"
    "lb_otherLaws (legalBasis minimalDossier) \<in> {None, Some []}"
    by (simp_all add: minimalDossier_def)
  from h minimal_lines_no_break
    absent_fields_leave_empty_lines [of toLowerCaseLatin1 exampleClock minimalDossier]
  have c: "splitLines (fullDocument toLowerCaseLatin1 exampleClock minimalDossier)
             = laudoLines toLowerCaseLatin1 exampleClock minimalDossier
     \<and> laudoLines toLowerCaseLatin1 exampleClock minimalDossier ! 11 = []
     \<and> laudoLines toLowerCaseLatin1 exampleClock minimalDossier ! 13 = []
     \<and> laudoLines toLowerCaseLatin1 exampleClock minimalDossier ! 14 = []
     \<and> laudoLines toLowerCaseLatin1 exampleClock minimalDossier ! 15 = []
     \<and> laudoLines toLowerCaseLatin1 exampleClock minimalDossier ! 21 = []
     \<and> laudoLines toLowerCaseLatin1 exampleClock minimalDossier ! 22 = []
     \<and> laudoLines toLowerCaseLatin1 exampleClock minimalDossier ! 37 = []
     \<and> laudoLines toLowerCaseLatin1 exampleClock minimalDossier ! 55 = []"
    by blast
  from h minimal_lines_no_break c show ?thesis
    by (simp add: list_all_iff)
qed

end
